theory Spec2Isabelle
  imports Main "HOL-Library.AList" "HOL-Library.Sublist"
begin

section \<open>Values held in memory and on disk\<close>

text \<open>
  The module \<^verbatim>\<open>tools1.py\<close> keeps, per session identifier, a dictionary with the two
  entries \<^verbatim>\<open>onboarding_state\<close> and \<^verbatim>\<open>conversation_log\<close>. Both are ordinary Python
  objects: \<^verbatim>\<open>load_session\<close> stores whatever \<^verbatim>\<open>json.load\<close> returned, unchecked, so the
  values are modelled as JSON values. A Python \<^verbatim>\<open>dict\<close> is an association list in
  insertion order, \<^verbatim>\<open>None\<close> is \<open>JNull\<close>. A string is the list of its characters,
  taken to be ASCII: case mapping and white space are those of ASCII. JSON numbers are
  integers here.
\<close>

datatype json =
    JNull
  | JBool bool
  | JInt int
  | JStr string
  | JArr "json list"
  | JObj "(string \<times> json) list"

text \<open>The exceptions the operations can raise on such values.\<close>

datatype pyexn = TypeError string | AttributeError string

fun exn_text :: "pyexn \<Rightarrow> string" where
  "exn_text (TypeError m) = m"
| "exn_text (AttributeError m) = m"

fun type_name :: "json \<Rightarrow> string" where
  "type_name JNull = ''NoneType''"
| "type_name (JBool b) = ''bool''"
| "type_name (JInt n) = ''int''"
| "type_name (JStr s) = ''str''"
| "type_name (JArr xs) = ''list''"
| "type_name (JObj kvs) = ''dict''"

text \<open>Truth value of an object, as \<^verbatim>\<open>if v\<close> and \<^verbatim>\<open>not v\<close> compute it.\<close>

fun truthy :: "json \<Rightarrow> bool" where
  "truthy JNull = False"
| "truthy (JBool b) = b"
| "truthy (JInt n) = (n \<noteq> 0)"
| "truthy (JStr s) = (s \<noteq> [])"
| "truthy (JArr xs) = (xs \<noteq> [])"
| "truthy (JObj kvs) = (kvs \<noteq> [])"

text \<open>\<^verbatim>\<open>needle in hay\<close> for two strings: \<open>needle\<close> occurs as a contiguous part.\<close>

fun str_contains :: "string \<Rightarrow> string \<Rightarrow> bool" where
  "str_contains needle [] = (needle = [])"
| "str_contains needle (c # cs) = (prefix needle (c # cs) \<or> str_contains needle cs)"

text \<open>\<^verbatim>\<open>field in obj\<close> with a string on the left.\<close>

fun py_in :: "string \<Rightarrow> json \<Rightarrow> pyexn + bool" where
  "py_in k (JObj kvs) = Inr (k \<in> fst ` set kvs)"
| "py_in k (JArr xs) = Inr (JStr k \<in> set xs)"
| "py_in k (JStr s) = Inr (str_contains k s)"
| "py_in k v = Inl (TypeError (''argument of type '' @ [CHR 0x27] @ type_name v @ [CHR 0x27] @ '' is not iterable''))"

text \<open>\<^verbatim>\<open>obj.copy()\<close>: dictionaries and lists have the method.\<close>

fun py_copy :: "json \<Rightarrow> pyexn + json" where
  "py_copy (JObj kvs) = Inr (JObj kvs)"
| "py_copy (JArr xs) = Inr (JArr xs)"
| "py_copy v = Inl (AttributeError ([CHR 0x27] @ type_name v @ [CHR 0x27] @ '' object has no attribute '' @ [CHR 0x27] @ ''copy'' @ [CHR 0x27]))"

text \<open>
  \<^verbatim>\<open>obj[key] = value\<close> with a string key: a dictionary replaces the value of a key it
  has, in place, and appends a new key at the end.
\<close>

fun py_setitem :: "json \<Rightarrow> string \<Rightarrow> json \<Rightarrow> pyexn + json" where
  "py_setitem (JObj kvs) k x = Inr (JObj (AList.update k x kvs))"
| "py_setitem (JArr xs) k x = Inl (TypeError ''list indices must be integers or slices, not str'')"
| "py_setitem v k x = Inl (TypeError ([CHR 0x27] @ type_name v @ [CHR 0x27] @ '' object does not support item assignment''))"

text \<open>\<^verbatim>\<open>obj.get(key, default)\<close>.\<close>

fun py_get :: "json \<Rightarrow> string \<Rightarrow> json \<Rightarrow> pyexn + json" where
  "py_get (JObj kvs) k d = Inr (case map_of kvs k of Some x \<Rightarrow> x | None \<Rightarrow> d)"
| "py_get v k d = Inl (AttributeError ([CHR 0x27] @ type_name v @ [CHR 0x27] @ '' object has no attribute '' @ [CHR 0x27] @ ''get'' @ [CHR 0x27]))"

text \<open>\<^verbatim>\<open>len(obj)\<close>.\<close>

fun py_len :: "json \<Rightarrow> pyexn + nat" where
  "py_len (JArr xs) = Inr (length xs)"
| "py_len (JObj kvs) = Inr (length kvs)"
| "py_len (JStr s) = Inr (length s)"
| "py_len v = Inl (TypeError (''object of type '' @ [CHR 0x27] @ type_name v @ [CHR 0x27] @ '' has no len()''))"

text \<open>\<^verbatim>\<open>sep.join(parts)\<close>.\<close>

fun join :: "string \<Rightarrow> string list \<Rightarrow> string" where
  "join sep [] = []"
| "join sep [x] = x"
| "join sep (x # y # ys) = x @ sep @ join sep (y # ys)"

text \<open>\<^verbatim>\<open>s.startswith(p)\<close>.\<close>

definition startswith :: "string \<Rightarrow> string \<Rightarrow> bool" where
  "startswith s p = prefix p s"

text \<open>Case mapping of the letters a to z, and \<^verbatim>\<open>s.capitalize()\<close>, \<^verbatim>\<open>s.lower()\<close>.\<close>

definition lower_letters :: string where
  "lower_letters = ''abcdefghijklmnopqrstuvwxyz''"

definition upper_letters :: string where
  "upper_letters = ''ABCDEFGHIJKLMNOPQRSTUVWXYZ''"

definition to_upper :: "char \<Rightarrow> char" where
  "to_upper c = (case map_of (zip lower_letters upper_letters) c of Some u \<Rightarrow> u | None \<Rightarrow> c)"

definition to_lower :: "char \<Rightarrow> char" where
  "to_lower c = (case map_of (zip upper_letters lower_letters) c of Some l \<Rightarrow> l | None \<Rightarrow> c)"

definition lower :: "string \<Rightarrow> string" where
  "lower s = map to_lower s"

fun capitalize :: "string \<Rightarrow> string" where
  "capitalize [] = []"
| "capitalize (c # cs) = to_upper c # map to_lower cs"

text \<open>
  \<^verbatim>\<open>s.strip()\<close>: leading and trailing white space removed. Among the ASCII
  characters Python counts as white space the space, the controls 0x09 to 0x0D and the
  separators 0x1C to 0x1F.
\<close>

definition is_space :: "char \<Rightarrow> bool" where
  "is_space c =
     (c \<in> set [CHR '' '', CHR 0x09, CHR 0x0A, CHR 0x0B, CHR 0x0C, CHR 0x0D,
                CHR 0x1C, CHR 0x1D, CHR 0x1E, CHR 0x1F])"

definition strip :: "string \<Rightarrow> string" where
  "strip s = rev (dropWhile is_space (rev (dropWhile is_space s)))"

section \<open>The validation model \<^verbatim>\<open>UserOnboarding\<close>\<close>

text \<open>
  The pattern of the \<^verbatim>\<open>phone\<close> field, \<^verbatim>\<open>^\+?[1-9]\d{1,14}$\<close>, is kept as a
  regular expression and run by a matcher. A character class is the list of its members;
  \<open>x?\<close> and \<open>x{m,n}\<close> are the usual abbreviations. The anchors make the match a match
  of the whole string: the pattern engine of the validation library lets \<^verbatim>\<open>$\<close>
  match at the very end only.
\<close>

datatype rx = Eps | Cls string | Seq rx rx | Alt rx rx

definition opt :: "rx \<Rightarrow> rx" where
  "opt r = Alt r Eps"

fun upto_times :: "rx \<Rightarrow> nat \<Rightarrow> rx" where
  "upto_times r 0 = Eps"
| "upto_times r (Suc n) = opt (Seq r (upto_times r n))"

fun times :: "rx \<Rightarrow> nat \<Rightarrow> nat \<Rightarrow> rx" where
  "times r 0 n = upto_times r n"
| "times r (Suc m) n = Seq r (times r m (n - 1))"

definition digit :: rx where
  "digit = Cls ''0123456789''"

definition phone_pattern :: rx where
  "phone_pattern = Seq (opt (Cls ''+'')) (Seq (Cls ''123456789'') (times digit 1 14))"

text \<open>
  \<open>rmatch r s k\<close>: some prefix of \<open>s\<close> matches \<open>r\<close> and the rest satisfies the
  continuation \<open>k\<close>.
\<close>

fun rmatch :: "rx \<Rightarrow> string \<Rightarrow> (string \<Rightarrow> bool) \<Rightarrow> bool" where
  "rmatch Eps s k = k s"
| "rmatch (Cls cs) s k = (case s of [] \<Rightarrow> False | c # t \<Rightarrow> c \<in> set cs \<and> k t)"
| "rmatch (Seq a b) s k = rmatch a s (\<lambda>t. rmatch b t k)"
| "rmatch (Alt a b) s k = (rmatch a s k \<or> rmatch b s k)"

definition fullmatch :: "rx \<Rightarrow> string \<Rightarrow> bool" where
  "fullmatch r s = rmatch r s (\<lambda>t. t = [])"

text \<open>
  What the module takes from its libraries: which strings \<^verbatim>\<open>EmailStr\<close> accepts, the
  names \<^verbatim>\<open>c.name\<close> of \<^verbatim>\<open>pycountry.countries\<close>, the text \<^verbatim>\<open>str(e)\<close> of the validation
  error raised for a rejected dictionary, and the text an f-string gives a value that
  is not a string.
\<close>

record lib =
  email_str :: "string \<Rightarrow> bool"
  country_names :: "string list"
  validation_error :: "(string \<times> json) list \<Rightarrow> string"
  py_repr :: "json \<Rightarrow> string"

text \<open>
  The four fields are optional: \<^verbatim>\<open>None\<close> passes, a string is checked by the field's
  rule, any other value is not a string. The module uses \<^verbatim>\<open>field_validator\<close> and
  \<^verbatim>\<open>pattern=\<close>, so it runs on version 2 of the validation library, whose \<^verbatim>\<open>Field\<close>
  has no parameter \<^verbatim>\<open>strip_whitespace\<close>: the keyword is an ignored extra, nothing is
  stripped, and the length bounds and the pattern apply to the value as given.
\<close>

fun name_field :: "json \<Rightarrow> bool" where
  "name_field JNull = True"
| "name_field (JStr s) = (2 \<le> length s \<and> length s \<le> 100)"
| "name_field v = False"

fun email_field :: "lib \<Rightarrow> json \<Rightarrow> bool" where
  "email_field L JNull = True"
| "email_field L (JStr s) = email_str L s"
| "email_field L v = False"

fun phone_field :: "json \<Rightarrow> bool" where
  "phone_field JNull = True"
| "phone_field (JStr s) = fullmatch phone_pattern s"
| "phone_field v = False"

text \<open>\<^verbatim>\<open>validate_country\<close>, after the type check of \<^verbatim>\<open>Optional[str]\<close>.\<close>

fun validate_country :: "lib \<Rightarrow> json \<Rightarrow> bool" where
  "validate_country L JNull = True"
| "validate_country L (JStr s) = (lower s \<in> set (map lower (country_names L)))"
| "validate_country L v = False"

text \<open>A keyword that is not passed leaves the field at its default \<^verbatim>\<open>None\<close>.\<close>

definition kwarg :: "(string \<times> json) list \<Rightarrow> string \<Rightarrow> json" where
  "kwarg kvs k = (case map_of kvs k of Some x \<Rightarrow> x | None \<Rightarrow> JNull)"

text \<open>
  \<^verbatim>\<open>UserOnboarding(**temp_data)\<close>: every field of the model is validated, other
  keywords are ignored. \<open>Inl\<close> carries the text of the validation error.
\<close>

definition UserOnboarding :: "lib \<Rightarrow> (string \<times> json) list \<Rightarrow> string + unit" where
  "UserOnboarding L kvs =
     (if name_field (kwarg kvs ''name'') \<and> email_field L (kwarg kvs ''email'')
         \<and> phone_field (kwarg kvs ''phone'') \<and> validate_country L (kwarg kvs ''country'')
      then Inr () else Inl (validation_error L kvs))"

section \<open>Session-specific state\<close>

record session =
  onboarding_state :: json
  conversation_log :: json

text \<open>
  A file of the working directory holds either a document that \<^verbatim>\<open>json.load\<close> parses
  (the value it returns) or text that it rejects (with the text of the error raised).
  \<^verbatim>\<open>json.dump\<close> followed by \<^verbatim>\<open>json.load\<close> gives the value back.
\<close>

datatype disk_file = Doc json | Garbled string

text \<open>
  The module's globals \<^verbatim>\<open>sessions_data\<close> and \<^verbatim>\<open>current_session_id\<close>, and the files
  of the working directory by name.
\<close>

record world =
  sessions_data :: "string \<rightharpoonup> session"
  current_session_id :: string
  files :: "string \<rightharpoonup> disk_file"

text \<open>The module as imported: no session, the identifier \<^verbatim>\<open>""\<close>.\<close>

definition initial_world :: "(string \<rightharpoonup> disk_file) \<Rightarrow> world" where
  "initial_world fs = \<lparr>sessions_data = Map.empty, current_session_id = [], files = fs\<rparr>"

definition empty_onboarding :: json where
  "empty_onboarding =
     JObj [(''name'', JNull), (''email'', JNull), (''phone'', JNull), (''country'', JNull)]"

definition new_session :: session where
  "new_session = \<lparr>onboarding_state = empty_onboarding, conversation_log = JArr []\<rparr>"

text \<open>\<^verbatim>\<open>_get_session_data\<close>: the session of the identifier, created when absent.\<close>

definition get_session_data :: "string \<Rightarrow> world \<Rightarrow> session \<times> world" where
  "get_session_data session_id w =
     (case sessions_data w session_id of
        None \<Rightarrow> (new_session, w\<lparr>sessions_data := (sessions_data w)(session_id \<mapsto> new_session)\<rparr>)
      | Some s \<Rightarrow> (s, w))"

definition get_onboarding_state :: "string \<Rightarrow> world \<Rightarrow> json \<times> world" where
  "get_onboarding_state session_id w =
     (let (s, w1) = get_session_data session_id w in (onboarding_state s, w1))"

definition get_conversation_log :: "string \<Rightarrow> world \<Rightarrow> json \<times> world" where
  "get_conversation_log session_id w =
     (let (s, w1) = get_session_data session_id w in (conversation_log s, w1))"

definition set_current_session_id :: "string \<Rightarrow> world \<Rightarrow> world" where
  "set_current_session_id session_id w = w\<lparr>current_session_id := session_id\<rparr>"

section \<open>File helpers\<close>

definition get_session_file :: "string \<Rightarrow> string" where
  "get_session_file session_id = ''session_'' @ session_id @ ''.json''"

text \<open>
  What the file system does with a write: it succeeds, \<^verbatim>\<open>open\<close> raises (the file
  is untouched), or \<^verbatim>\<open>json.dump\<close> raises after \<^verbatim>\<open>open\<close> has truncated the file
  (unparsable text is left). With a read, \<^verbatim>\<open>open\<close> succeeds or raises. Each failure
  carries the text of its exception; a failed dump also the text \<^verbatim>\<open>json.load\<close>
  would raise on what is left.
\<close>

datatype write_io = WriteOk | OpenFails string | DumpFails string string

datatype read_io = ReadOk | ReadFails string

text \<open>
  An operation returns the string it returns, or the exception it lets escape
  (\<open>Inl\<close>), together with the globals as it leaves them.
\<close>

type_synonym outcome = "(pyexn + string) \<times> world"

definition save_session :: "write_io \<Rightarrow> string \<Rightarrow> world \<Rightarrow> outcome" where
  "save_session io session_id w =
     (let (session_data, w1) = get_session_data session_id w;
          data = JObj [(''session_id'', JStr session_id),
                       (''onboarding_data'', onboarding_state session_data),
                       (''conversation'', conversation_log session_data)]
      in case io of
           OpenFails msg \<Rightarrow> (Inr (''Failed to save session: '' @ msg), w1)
         | DumpFails msg left \<Rightarrow>
             (Inr (''Failed to save session: '' @ msg),
              w1\<lparr>files := (files w1)(get_session_file session_id \<mapsto> Garbled left)\<rparr>)
         | WriteOk \<Rightarrow>
             (let w2 = w1\<lparr>files := (files w1)(get_session_file session_id \<mapsto> Doc data)\<rparr>
              in case py_len (conversation_log session_data) of
                   Inl e \<Rightarrow> (Inr (''Failed to save session: '' @ exn_text e), w2)
                 | Inr n \<Rightarrow> (Inr (''Session '' @ session_id @ '' saved successfully''), w2)))"

definition load_session :: "read_io \<Rightarrow> string \<Rightarrow> world \<Rightarrow> outcome" where
  "load_session io session_id w =
     (let file_path = get_session_file session_id in
      case files w file_path of
        None \<Rightarrow> (Inr (''Session file not found for '' @ session_id), w)
      | Some f \<Rightarrow>
          (case io of
             ReadFails msg \<Rightarrow> (Inr (''Failed to load session: '' @ msg), w)
           | ReadOk \<Rightarrow>
               (case f of
                  Garbled msg \<Rightarrow> (Inr (''Failed to load session: '' @ msg), w)
                | Doc data \<Rightarrow>
                    (case py_get data ''onboarding_data'' empty_onboarding of
                       Inl e \<Rightarrow> (Inr (''Failed to load session: '' @ exn_text e), w)
                     | Inr ob \<Rightarrow>
                         (case py_get data ''conversation'' (JArr []) of
                            Inl e \<Rightarrow> (Inr (''Failed to load session: '' @ exn_text e), w)
                          | Inr conv \<Rightarrow>
                              (let w1 = w\<lparr>sessions_data := (sessions_data w)(session_id \<mapsto>
                                           \<lparr>onboarding_state = ob, conversation_log = conv\<rparr>)\<rparr>
                               in case py_len conv of
                                    Inl e \<Rightarrow> (Inr (''Failed to load session: '' @ exn_text e), w1)
                                  | Inr n \<Rightarrow>
                                      (Inr (''Session '' @ session_id @ '' loaded successfully''), w1)))))))"

definition reset_session :: "write_io \<Rightarrow> string \<Rightarrow> world \<Rightarrow> outcome" where
  "reset_session io session_id w =
     (let w1 = w\<lparr>sessions_data := (sessions_data w)(session_id \<mapsto> new_session)\<rparr>
      in case save_session io session_id w1 of
           (Inl e, w2) \<Rightarrow> (Inr (''Failed to reset session: '' @ exn_text e), w2)
         | (Inr r, w2) \<Rightarrow> (Inr (''Session '' @ session_id @ '' reset successfully''), w2))"

section \<open>Conversation logging\<close>

text \<open>\<^verbatim>\<open>log.append(entry)\<close>: only a list has the method.\<close>

fun py_append :: "json \<Rightarrow> json \<Rightarrow> pyexn + json" where
  "py_append (JArr xs) x = Inr (JArr (xs @ [x]))"
| "py_append v x = Inl (AttributeError ([CHR 0x27] @ type_name v @ [CHR 0x27] @ '' object has no attribute '' @ [CHR 0x27] @ ''append'' @ [CHR 0x27]))"

definition message_entry :: "string \<Rightarrow> string \<Rightarrow> string \<Rightarrow> json" where
  "message_entry speaker text now =
     JObj [(''speaker'', JStr speaker), (''text'', JStr text), (''timestamp'', JStr now)]"

text \<open>
  \<open>now\<close> is the text of \<^verbatim>\<open>datetime.now()\<close> at the call. The session fetched is the
  object the dictionary holds, so the appended list is written back under the identifier.
\<close>

definition log_message_with_session :: "string \<Rightarrow> string \<Rightarrow> string \<Rightarrow> string \<Rightarrow> world \<Rightarrow> outcome" where
  "log_message_with_session now session_id speaker text w =
     (let (s, w1) = get_session_data session_id w in
      case py_append (conversation_log s) (message_entry speaker text now) of
        Inl e \<Rightarrow> (Inr (''Failed to log message: '' @ exn_text e), w1)
      | Inr log' \<Rightarrow>
          (Inr (''Message logged successfully for session '' @ session_id),
           w1\<lparr>sessions_data := (sessions_data w1)(session_id \<mapsto> s\<lparr>conversation_log := log'\<rparr>)\<rparr>))"

definition log_message :: "string \<Rightarrow> string \<Rightarrow> string \<Rightarrow> world \<Rightarrow> outcome" where
  "log_message now speaker text w =
     (let session_id = current_session_id w;
          (s, w1) = get_session_data session_id w in
      case py_append (conversation_log s) (message_entry speaker text now) of
        Inl e \<Rightarrow> (Inr (''Failed to log message: '' @ exn_text e), w1)
      | Inr log' \<Rightarrow>
          (Inr (''Message logged successfully for session '' @ session_id),
           w1\<lparr>sessions_data := (sessions_data w1)(session_id \<mapsto> s\<lparr>conversation_log := log'\<rparr>)\<rparr>))"

text \<open>
  \<open>now1\<close> and \<open>now2\<close> are the two readings of the clock. The save at the end is inside
  the \<^verbatim>\<open>try\<close>.
\<close>

definition log_conversation_turn ::
    "string \<Rightarrow> string \<Rightarrow> write_io \<Rightarrow> string \<Rightarrow> string \<Rightarrow> world \<Rightarrow> outcome" where
  "log_conversation_turn now1 now2 io user_message assistant_response w =
     (let session_id = current_session_id w;
          (s, w1) = get_session_data session_id w;
          log0 = conversation_log s
      in case (if strip user_message \<noteq> []
               then py_append log0 (message_entry ''user'' (strip user_message) now1)
               else Inr log0) of
           Inl e \<Rightarrow> (Inr (''Failed to log conversation turn: '' @ exn_text e), w1)
         | Inr log1 \<Rightarrow>
             (let w2 = w1\<lparr>sessions_data :=
                          (sessions_data w1)(session_id \<mapsto> s\<lparr>conversation_log := log1\<rparr>)\<rparr>
              in case (if strip assistant_response \<noteq> []
                       then py_append log1 (message_entry ''assistant'' (strip assistant_response) now2)
                       else Inr log1) of
                   Inl e \<Rightarrow> (Inr (''Failed to log conversation turn: '' @ exn_text e), w2)
                 | Inr log2 \<Rightarrow>
                     (let w3 = w2\<lparr>sessions_data :=
                                  (sessions_data w2)(session_id \<mapsto> s\<lparr>conversation_log := log2\<rparr>)\<rparr>
                      in case save_session io session_id w3 of
                           (Inl e, w4) \<Rightarrow>
                             (Inr (''Failed to log conversation turn: '' @ exn_text e), w4)
                         | (Inr r, w4) \<Rightarrow>
                             (Inr (''Conversation turn logged successfully for session '' @ session_id),
                              w4))))"

section \<open>Validation and storage\<close>

text \<open>
  \<^verbatim>\<open>validate_field\<close>. The membership test, the copy and the assignment to the copy
  are outside the \<^verbatim>\<open>try\<close>: what they raise escapes. Building the model is inside:
  every exception becomes an \<^verbatim>\<open>Invalid\<close> result.
\<close>

definition validate_field :: "lib \<Rightarrow> string \<Rightarrow> string \<Rightarrow> world \<Rightarrow> outcome" where
  "validate_field L field value w =
     (let session_id = current_session_id w;
          (ob, w1) = get_onboarding_state session_id w
      in case py_in field ob of
           Inl e \<Rightarrow> (Inl e, w1)
         | Inr False \<Rightarrow>
             (Inr (''Invalid field: '' @ field @ ''. Must be one of: name, email, phone, country''), w1)
         | Inr True \<Rightarrow>
             (case py_copy ob of
                Inl e \<Rightarrow> (Inl e, w1)
              | Inr temp \<Rightarrow>
                  (case py_setitem temp field (JStr value) of
                     Inl e \<Rightarrow> (Inl e, w1)
                   | Inr temp_data \<Rightarrow>
                       (case temp_data of
                          JObj kvs \<Rightarrow>
                            (case UserOnboarding L kvs of
                               Inr u \<Rightarrow> (Inr (''Valid '' @ field @ '': '' @ value), w1)
                             | Inl msg \<Rightarrow> (Inr (''Invalid '' @ field @ '': '' @ msg), w1))
                        | other \<Rightarrow>
                            (Inr (''Invalid '' @ field @ '': argument after ** must be a mapping, not ''
                                   @ type_name other), w1)))))"

text \<open>
  \<^verbatim>\<open>store_field\<close>. The state fetched at the start is the object the session holds;
  the assignment at the end changes that object, so the session of the identifier
  holds the updated dictionary.
\<close>

definition store_field :: "lib \<Rightarrow> string \<Rightarrow> string \<Rightarrow> world \<Rightarrow> outcome" where
  "store_field L field value w =
     (let session_id = current_session_id w;
          (s, w1) = get_session_data session_id w;
          ob = onboarding_state s
      in case py_in field ob of
           Inl e \<Rightarrow> (Inl e, w1)
         | Inr False \<Rightarrow>
             (Inr (''Invalid field: '' @ field @ ''. Must be one of: name, email, phone, country''), w1)
         | Inr True \<Rightarrow>
             (case validate_field L field value w1 of
                (Inl e, w2) \<Rightarrow> (Inl e, w2)
              | (Inr validation_result, w2) \<Rightarrow>
                  if \<not> startswith validation_result ''Valid''
                  then (Inr (''Cannot store invalid value: '' @ validation_result), w2)
                  else
                    (case py_setitem ob field (JStr value) of
                       Inl e \<Rightarrow> (Inl e, w2)
                     | Inr ob' \<Rightarrow>
                         (Inr (capitalize field @ '' stored successfully: '' @ value),
                          w2\<lparr>sessions_data :=
                               (sessions_data w2)(session_id \<mapsto> s\<lparr>onboarding_state := ob'\<rparr>)\<rparr>))))"

text \<open>\<^verbatim>\<open>obj.items()\<close>: only a dictionary has the method.\<close>

fun py_items :: "json \<Rightarrow> pyexn + (string \<times> json) list" where
  "py_items (JObj kvs) = Inr kvs"
| "py_items v = Inl (AttributeError ([CHR 0x27] @ type_name v @ [CHR 0x27] @ '' object has no attribute '' @ [CHR 0x27] @ ''items'' @ [CHR 0x27]))"

text \<open>The text of a value inside an f-string.\<close>

fun py_str :: "lib \<Rightarrow> json \<Rightarrow> string" where
  "py_str L (JStr s) = s"
| "py_str L v = py_repr L v"

definition is_onboarding_complete :: "world \<Rightarrow> outcome" where
  "is_onboarding_complete w =
     (let session_id = current_session_id w;
          (ob, w1) = get_onboarding_state session_id w
      in case py_items ob of
           Inl e \<Rightarrow> (Inl e, w1)
         | Inr items \<Rightarrow>
             (let missing_fields = map fst (filter (\<lambda>(k, v). \<not> truthy v) items)
              in if missing_fields \<noteq> []
                 then (Inr (''Onboarding incomplete. Missing: '' @ join '', '' missing_fields), w1)
                 else (Inr ''Onboarding complete - all fields filled'', w1)))"

definition get_summary :: "lib \<Rightarrow> world \<Rightarrow> outcome" where
  "get_summary L w =
     (let session_id = current_session_id w;
          (ob, w1) = get_onboarding_state session_id w
      in case py_items ob of
           Inl e \<Rightarrow> (Inl e, w1)
         | Inr items \<Rightarrow>
             (let filled_fields = filter (\<lambda>(k, v). truthy v) items
              in if filled_fields = []
                 then (Inr ''No onboarding data collected yet'', w1)
                 else
                   (let summary_parts = map (\<lambda>(k, v). capitalize k @ '': '' @ py_str L v) filled_fields
                    in (Inr (''Collected data: '' @ join '', '' summary_parts), w1))))"

text \<open>The list \<^verbatim>\<open>state_parts\<close> that \<^verbatim>\<open>get_current_state\<close> builds in its loop.\<close>

definition state_parts :: "lib \<Rightarrow> (string \<times> json) list \<Rightarrow> string list" where
  "state_parts L items =
     map (\<lambda>(field, value).
            capitalize field @ '': '' @ (if truthy value then py_str L value else ''not provided''))
         items"

definition get_current_state :: "lib \<Rightarrow> world \<Rightarrow> outcome" where
  "get_current_state L w =
     (let session_id = current_session_id w;
          (ob, w1) = get_onboarding_state session_id w
      in case py_items ob of
           Inl e \<Rightarrow> (Inl e, w1)
         | Inr items \<Rightarrow>
             (Inr (''Current onboarding state: '' @ join '', '' (state_parts L items)), w1))"

definition save_current_session :: "write_io \<Rightarrow> world \<Rightarrow> outcome" where
  "save_current_session io w = save_session io (current_session_id w) w"

definition reset_current_session :: "write_io \<Rightarrow> world \<Rightarrow> outcome" where
  "reset_current_session io w = reset_session io (current_session_id w) w"

section \<open>Observations and sample data\<close>

text \<open>
  The session an operation on the current identifier works on: the one
  \<^verbatim>\<open>_get_session_data\<close> returns for \<^verbatim>\<open>current_session_id\<close>.
\<close>

definition current_session :: "world \<Rightarrow> session" where
  "current_session w = fst (get_session_data (current_session_id w) w)"

text \<open>A small instance of the libraries, for concrete runs.\<close>

definition demo_lib :: lib where
  "demo_lib =
     \<lparr>email_str = (\<lambda>s. CHR ''@'' \<in> set s),
      country_names = [''Canada'', ''India''],
      validation_error = (\<lambda>kvs. ''1 validation error for UserOnboarding''),
      py_repr = (\<lambda>v. type_name v)\<rparr>"



text \<open>A session in memory that holds a name and was never saved.\<close>

definition bob_state :: json where
  "bob_state =
     JObj [(''name'', JStr ''Bob''), (''email'', JNull), (''phone'', JNull), (''country'', JNull)]"

definition bob_world :: world where
  "bob_world =
     \<lparr>sessions_data = [''s'' \<mapsto> \<lparr>onboarding_state = bob_state, conversation_log = JArr []\<rparr>],
      current_session_id = ''s'',
      files = Map.empty\<rparr>"

text \<open>
  Session \<^verbatim>\<open>s\<close> holds a name in memory, and its file holds a record whose
  \<^verbatim>\<open>conversation\<close> is \<^verbatim>\<open>null\<close>.
\<close>

definition null_log_world :: world where
  "null_log_world =
     \<lparr>sessions_data = [''s'' \<mapsto> \<lparr>onboarding_state = bob_state, conversation_log = JArr []\<rparr>],
      current_session_id = ''s'',
      files = [get_session_file ''s'' \<mapsto>
                 Doc (JObj [(''session_id'', JStr ''s''),
                            (''onboarding_data'', empty_onboarding),
                            (''conversation'', JNull)])]\<rparr>"

text \<open>A record whose \<^verbatim>\<open>onboarding_data\<close> holds the name only.\<close>

definition partial_record_world :: world where
  "partial_record_world =
     \<lparr>sessions_data = Map.empty,
      current_session_id = ''s'',
      files = [get_session_file ''s'' \<mapsto>
                 Doc (JObj [(''session_id'', JStr ''s''),
                            (''onboarding_data'', JObj [(''name'', JStr ''Al'')]),
                            (''conversation'', JArr [])])]\<rparr>"

text \<open>The module after a restart: nothing in memory, the files as they are.\<close>

definition restarted :: "string \<Rightarrow> world \<Rightarrow> world" where
  "restarted c w = \<lparr>sessions_data = Map.empty, current_session_id = c, files = files w\<rparr>"

text \<open>The globals after \<^verbatim>\<open>_get_session_data\<close> has created the session of an identifier.\<close>

definition created :: "string \<Rightarrow> world \<Rightarrow> world" where
  "created session_id w = w\<lparr>sessions_data := (sessions_data w)(session_id \<mapsto> new_session)\<rparr>"

section \<open>The rules of the specification\<close>

text \<open>
  The international format in the specification's words: an optional leading \<^verbatim>\<open>+\<close>,
  then digits only, 2 to 15 of them, the first one from 1 to 9.
\<close>

definition phone_format :: "string \<Rightarrow> bool" where
  "phone_format s =
     (let ds = (case s of [] \<Rightarrow> [] | c # t \<Rightarrow> if c = CHR ''+'' then t else s)
      in 2 \<le> length ds \<and> length ds \<le> 15
         \<and> list_all (\<lambda>c. c \<in> set ''0123456789'') ds
         \<and> (case ds of [] \<Rightarrow> False | d # t \<Rightarrow> d \<in> set ''123456789''))"


text \<open>
  An outcome of \<^verbatim>\<open>validate_field\<close> counts as a success when the string returned starts
  with \<^verbatim>\<open>Valid\<close>: this is the test \<^verbatim>\<open>store_field\<close> applies to it.
\<close>

definition says_valid :: "outcome \<Rightarrow> bool" where
  "says_valid out = (case fst out of Inl e \<Rightarrow> False | Inr r \<Rightarrow> startswith r ''Valid'')"

text \<open>The fields other than \<open>f\<close> pass the model: the dictionary is valid once \<open>f\<close> is \<^verbatim>\<open>None\<close>.\<close>

definition others_valid :: "lib \<Rightarrow> string \<Rightarrow> (string \<times> json) list \<Rightarrow> bool" where
  "others_valid L f kvs = (UserOnboarding L (AList.update f JNull kvs) = Inr ())"

text \<open>What is left of a matching value after the optional \<^verbatim>\<open>+\<close>, read off the pattern.\<close>

definition phone_body :: "string \<Rightarrow> bool" where
  "phone_body t = (case t of [] \<Rightarrow> False | c # u \<Rightarrow> c \<in> set ''123456789'' \<and>
       (case u of [] \<Rightarrow> False | d # x \<Rightarrow> d \<in> set ''0123456789'' \<and> length x \<le> 13 \<and> set x \<subseteq> set ''0123456789''))"

text \<open>
  An outcome of \<^verbatim>\<open>store_field\<close> counts as a success when it returns the confirmation,
  the string built after the assignment.
\<close>

definition store_confirmed :: "string \<Rightarrow> string \<Rightarrow> outcome \<Rightarrow> bool" where
  "store_confirmed f v out = (fst out = Inr (capitalize f @ '' stored successfully: '' @ v))"

text \<open>
  A session of the ordinary shape: a dictionary of fields and a list of entries. An
  outcome that is a returned string, not an exception.
\<close>

definition ordinary :: "session \<Rightarrow> bool" where
  "ordinary s =
     (case onboarding_state s of
        JObj kvs \<Rightarrow> (case conversation_log s of JArr es \<Rightarrow> True | other \<Rightarrow> False)
      | other \<Rightarrow> False)"

definition returned :: "outcome \<Rightarrow> bool" where
  "returned out = (case fst out of Inl e \<Rightarrow> False | Inr r \<Rightarrow> True)"

section \<open>Properties\<close>

subsection \<open>Fetching the session\<close>

lemma get_session_data_fst:
  "fst (get_session_data sid w) = (case sessions_data w sid of None \<Rightarrow> new_session | Some s \<Rightarrow> s)"
  by (simp add: get_session_data_def split: option.splits)

lemma get_onboarding_state_eq:
  "get_onboarding_state (current_session_id w) w =
     (onboarding_state (current_session w), snd (get_session_data (current_session_id w) w))"
  by (simp add: get_onboarding_state_def current_session_def split: prod.splits)

lemma bob_current:
  "current_session bob_world = \<lparr>onboarding_state = bob_state, conversation_log = JArr []\<rparr>"
  by (simp add: current_session_def get_session_data_def bob_world_def)

subsection \<open>Completion check\<close>





lemma get_session_data_snd:
  "snd (get_session_data sid w) =
     w\<lparr>sessions_data := (sessions_data w)(sid \<mapsto> fst (get_session_data sid w))\<rparr>"
  by (auto simp: get_session_data_def map_upd_triv split: option.splits)

lemma get_session_data_again:
  "get_session_data sid (snd (get_session_data sid w)) =
     (fst (get_session_data sid w), snd (get_session_data sid w))"
  by (simp add: get_session_data_def split: option.splits)

lemma get_session_data_other:
  "fst (get_session_data sid' (snd (get_session_data sid w))) = fst (get_session_data sid' w)"
  by (simp add: get_session_data_def split: option.splits)

subsection \<open>Logging a message\<close>

text \<open>
  C3. \<^verbatim>\<open>log_message\<close> has no test of the text: whenever the conversation log of the
  current session is a list, it appends exactly one entry carrying the given speaker and
  the text as given, for every text, an empty or blank one too. The claim asks that a
  blank text appends nothing, as \<^verbatim>\<open>log_conversation_turn\<close> does with its
  \<^verbatim>\<open>if user_message.strip()\<close>; \<^verbatim>\<open>log_message\<close> misses that test.
\<close>

theorem log_message_appends_any_text:
  assumes "conversation_log (current_session w) = JArr es"
  shows "log_message now speaker text w =
           (Inr (''Message logged successfully for session '' @ current_session_id w),
            w\<lparr>sessions_data := (sessions_data w)(current_session_id w \<mapsto>
                 (current_session w)\<lparr>conversation_log := JArr (es @ [message_entry speaker text now])\<rparr>)\<rparr>)"
  using assms
  by (simp add: log_message_def current_session_def get_session_data_def Let_def
           split: option.splits prod.splits)

text \<open>The theorem at the text of three spaces: one entry is appended.\<close>

theorem log_message_appends_any_text_witness:
  "conversation_log (current_session (initial_world Map.empty)) = JArr []
   \<and> strip ''   '' = []
   \<and> sessions_data (snd (log_message ''2025-01-01 10:00:00'' ''user'' ''   '' (initial_world Map.empty))) ''''
       = Some \<lparr>onboarding_state = empty_onboarding,
               conversation_log = JArr [JObj [(''speaker'', JStr ''user''), (''text'', JStr ''   ''),
                                              (''timestamp'', JStr ''2025-01-01 10:00:00'')]]\<rparr>"
  using log_message_appends_any_text [of "initial_world Map.empty" "[]" "''2025-01-01 10:00:00''" "''user''" "''   ''"]
  by (simp add: current_session_def get_session_data_def initial_world_def new_session_def
        message_entry_def strip_def is_space_def)

subsection \<open>Saving\<close>

text \<open>
  \<^verbatim>\<open>save_session\<close> always returns a string, and whatever the file system does, every
  session is observed afterwards as before (the session saved is created when absent).
\<close>

lemma save_session_sessions:
  "sessions_data (snd (save_session io sid w)) = sessions_data (snd (get_session_data sid w))"
  by (simp add: save_session_def Let_def split: prod.splits write_io.splits sum.splits)

lemma save_session_returns: "\<exists>r. fst (save_session io sid w) = Inr r"
  by (simp add: save_session_def Let_def split: prod.splits write_io.splits sum.splits)

lemma save_session_keeps_sessions:
  "fst (get_session_data sid' (snd (save_session io sid w))) = fst (get_session_data sid' w)"
  using save_session_sessions [of io sid w]
  by (simp add: get_session_data_def split: option.splits)

text \<open>The sibling of \<^verbatim>\<open>log_message\<close>: blank texts leave every session as it was.\<close>

lemma log_conversation_turn_skips_blank:
  assumes "strip user_message = []" "strip assistant_response = []"
  shows "fst (get_session_data sid (snd (log_conversation_turn now1 now2 io user_message assistant_response w)))
           = fst (get_session_data sid w)"
proof -
  obtain s w1 where g: "get_session_data (current_session_id w) w = (s, w1)"
    by (cases "get_session_data (current_session_id w) w")
  have cur: "current_session_id w1 = current_session_id w"
    using g by (auto simp: get_session_data_def split: option.splits)
  have same: "w1\<lparr>sessions_data := (sessions_data w1)(current_session_id w \<mapsto> s\<lparr>conversation_log := conversation_log s\<rparr>)\<rparr> = w1"
    using g by (auto simp: get_session_data_def map_upd_triv split: option.splits)
  have "snd (log_conversation_turn now1 now2 io user_message assistant_response w)
          = snd (save_session io (current_session_id w) w1)"
    using assms g same
    by (simp add: log_conversation_turn_def Let_def split: prod.splits sum.splits)
  moreover have "fst (get_session_data sid w1) = fst (get_session_data sid w)"
    using g get_session_data_other [of sid "current_session_id w" w] by simp
  ultimately show ?thesis
    by (simp add: save_session_keeps_sessions)
qed

subsection \<open>Loading\<close>

text \<open>
  C9, as the code has it. For a session identifier with no file, \<^verbatim>\<open>load_session\<close>
  returns the not-found string and leaves the globals as they are; so an identifier
  that has no session in memory either is observed afterwards with the default empty
  state.
\<close>

theorem load_session_not_found:
  assumes "files w (get_session_file session_id) = None"
  shows "load_session io session_id w = (Inr (''Session file not found for '' @ session_id), w)
         \<and> (sessions_data w session_id = None \<longrightarrow>
              fst (get_session_data session_id (snd (load_session io session_id w))) = new_session)"
  using assms by (simp add: load_session_def get_session_data_def)

text \<open>The theorem at an identifier unknown to memory and disk.\<close>

theorem load_session_not_found_witness:
  "files (initial_world Map.empty) (get_session_file ''unknown-id'') = None
   \<and> sessions_data (initial_world Map.empty) ''unknown-id'' = None
   \<and> fst (load_session ReadOk ''unknown-id'' (initial_world Map.empty))
       = Inr ''Session file not found for unknown-id''
   \<and> fst (get_session_data ''unknown-id'' (snd (load_session ReadOk ''unknown-id'' (initial_world Map.empty))))
       = new_session"
  using load_session_not_found [of "initial_world Map.empty" "''unknown-id''" ReadOk]
  by (simp add: initial_world_def get_session_data_def)

text \<open>
  C9 as stated fails: session \<^verbatim>\<open>s\<close> has no file but holds a name in memory; after
  the not-found result its state is still that one, not the default empty state.
\<close>

theorem load_session_not_found_keeps_memory:
  "files bob_world (get_session_file ''s'') = None
   \<and> fst (load_session ReadOk ''s'' bob_world) = Inr ''Session file not found for s''
   \<and> onboarding_state (fst (get_session_data ''s'' (snd (load_session ReadOk ''s'' bob_world))))
       = JObj [(''name'', JStr ''Bob''), (''email'', JNull), (''phone'', JNull), (''country'', JNull)]
   \<and> fst (get_session_data ''s'' (snd (load_session ReadOk ''s'' bob_world))) \<noteq> new_session"
  by (simp add: load_session_def bob_world_def bob_state_def get_session_data_def new_session_def
        empty_onboarding_def)

text \<open>
  C2. Let the session of the identifier hold any onboarding state and any list of
  conversation entries. A successful \<^verbatim>\<open>save_session\<close>, a restart (nothing in memory)
  and \<^verbatim>\<open>load_session\<close> of the same identifier both report success, and the store then
  holds exactly that session under the identifier: the same onboarding values and the
  same entries in the same order.
\<close>

theorem save_then_load_roundtrip:
  assumes "fst (get_session_data session_id w) = \<lparr>onboarding_state = ob, conversation_log = JArr entries\<rparr>"
  shows "fst (save_session WriteOk session_id w) = Inr (''Session '' @ session_id @ '' saved successfully'')
       \<and> load_session ReadOk session_id (restarted c (snd (save_session WriteOk session_id w)))
           = (Inr (''Session '' @ session_id @ '' loaded successfully''),
              (restarted c (snd (save_session WriteOk session_id w)))
                \<lparr>sessions_data := [session_id \<mapsto> \<lparr>onboarding_state = ob, conversation_log = JArr entries\<rparr>]\<rparr>)"
proof -
  obtain w1 where g: "get_session_data session_id w
                        = (\<lparr>onboarding_state = ob, conversation_log = JArr entries\<rparr>, w1)"
    using assms by (cases "get_session_data session_id w") simp
  have saved: "save_session WriteOk session_id w
                 = (Inr (''Session '' @ session_id @ '' saved successfully''),
                    w1\<lparr>files := (files w1)(get_session_file session_id \<mapsto>
                         Doc (JObj [(''session_id'', JStr session_id), (''onboarding_data'', ob),
                                    (''conversation'', JArr entries)]))\<rparr>)"
    by (simp add: save_session_def g)
  show ?thesis
    by (simp add: saved load_session_def restarted_def Let_def)
qed

text \<open>The theorem at the session that holds a name.\<close>

theorem save_then_load_roundtrip_witness:
  "fst (get_session_data ''s'' bob_world) = \<lparr>onboarding_state = bob_state, conversation_log = JArr []\<rparr>
   \<and> fst (save_session WriteOk ''s'' bob_world) = Inr ''Session s saved successfully''
   \<and> fst (load_session ReadOk ''s'' (restarted '''' (snd (save_session WriteOk ''s'' bob_world))))
       = Inr ''Session s loaded successfully''
   \<and> sessions_data (snd (load_session ReadOk ''s'' (restarted '''' (snd (save_session WriteOk ''s'' bob_world))))) ''s''
       = Some \<lparr>onboarding_state = bob_state, conversation_log = JArr []\<rparr>"
  using save_then_load_roundtrip [of "''s''" bob_world bob_state "[]" "''''"]
  by (simp add: bob_world_def get_session_data_def)

text \<open>
  C8. \<^verbatim>\<open>load_session\<close> assigns the session before it formats its message with
  \<^verbatim>\<open>len\<close> of the conversation log, inside the same \<^verbatim>\<open>try\<close>. On a record whose
  \<^verbatim>\<open>conversation\<close> is \<^verbatim>\<open>null\<close> the call returns a failure string, and the session in
  memory has been overwritten: the stored name is lost.
\<close>

theorem load_session_overwrites_then_fails:
  "sessions_data null_log_world ''s'' = Some \<lparr>onboarding_state = bob_state, conversation_log = JArr []\<rparr>
   \<and> fst (load_session ReadOk ''s'' null_log_world)
       = Inr (''Failed to load session: object of type '' @ [CHR 0x27] @ ''NoneType'' @ [CHR 0x27] @ '' has no len()'')
   \<and> sessions_data (snd (load_session ReadOk ''s'' null_log_world)) ''s''
       = Some \<lparr>onboarding_state = empty_onboarding, conversation_log = JNull\<rparr>
   \<and> bob_state \<noteq> empty_onboarding"
  by (simp add: load_session_def null_log_world_def get_session_file_def bob_state_def
        empty_onboarding_def Let_def)

text \<open>The failures before the assignment leave the globals as they are.\<close>

lemma load_session_read_failure_keeps_world:
  "load_session (ReadFails msg) sid w = (r, w') \<Longrightarrow> w' = w"
  by (auto simp: load_session_def Let_def split: option.splits)

lemma load_session_garbled_keeps_world:
  "files w (get_session_file sid) = Some (Garbled msg) \<Longrightarrow>
     load_session ReadOk sid w = (Inr (''Failed to load session: '' @ msg), w)"
  by (simp add: load_session_def Let_def)

lemma load_session_returns: "\<exists>r. fst (load_session io sid w) = Inr r"
  by (simp add: load_session_def Let_def split: option.splits read_io.splits disk_file.splits sum.splits)

text \<open>
  C6. \<^verbatim>\<open>load_session\<close> takes the default of four \<^verbatim>\<open>None\<close> fields only when the
  record has no \<^verbatim>\<open>onboarding_data\<close> at all. A record whose \<^verbatim>\<open>onboarding_data\<close>
  holds the name only is loaded as it is: the other three keys are absent afterwards,
  \<^verbatim>\<open>validate_field\<close> rejects \<^verbatim>\<open>email\<close> as an invalid field, and
  \<^verbatim>\<open>is_onboarding_complete\<close> reports complete.
\<close>

theorem load_session_partial_record:
  "fst (load_session ReadOk ''s'' partial_record_world) = Inr ''Session s loaded successfully''
   \<and> onboarding_state (current_session (snd (load_session ReadOk ''s'' partial_record_world)))
       = JObj [(''name'', JStr ''Al'')]
   \<and> fst (validate_field demo_lib ''email'' ''al@example.com'' (snd (load_session ReadOk ''s'' partial_record_world)))
       = Inr ''Invalid field: email. Must be one of: name, email, phone, country''
   \<and> fst (is_onboarding_complete (snd (load_session ReadOk ''s'' partial_record_world)))
       = Inr ''Onboarding complete - all fields filled''"
  by (simp add: load_session_def partial_record_world_def get_session_file_def
        current_session_def get_session_data_def is_onboarding_complete_def validate_field_def
        get_onboarding_state_def Let_def)

text \<open>The case the default covers: a record without both keys gives the new session.\<close>

lemma load_session_missing_onboarding_data:
  assumes "files w (get_session_file sid) = Some (Doc (JObj kvs))"
          "map_of kvs ''onboarding_data'' = None" "map_of kvs ''conversation'' = None"
  shows "load_session ReadOk sid w
           = (Inr (''Session '' @ sid @ '' loaded successfully''),
              w\<lparr>sessions_data := (sessions_data w)(sid \<mapsto> new_session)\<rparr>)"
  using assms by (simp add: load_session_def Let_def new_session_def)

subsection \<open>Validation has no effect but the creation of the session\<close>

lemma validate_field_world:
  "snd (validate_field L f v w) = snd (get_session_data (current_session_id w) w)"
  by (simp add: validate_field_def get_onboarding_state_def Let_def
           split: prod.splits sum.splits bool.splits json.splits)

lemma get_session_data_current_id:
  "current_session_id (snd (get_session_data sid w)) = current_session_id w"
  by (simp add: get_session_data_def split: option.splits)

lemma get_session_data_files:
  "files (snd (get_session_data sid w)) = files w"
  by (simp add: get_session_data_def split: option.splits)

lemma get_session_data_keeps_present:
  "sessions_data w sid' = Some s \<Longrightarrow> sessions_data (snd (get_session_data sid w)) sid' = Some s"
  by (auto simp: get_session_data_def split: option.splits)

lemma validate_field_again:
  "validate_field L f v (snd (get_session_data (current_session_id w) w)) = validate_field L f v w"
  by (simp add: validate_field_def get_onboarding_state_def get_session_data_current_id
        get_session_data_again)

text \<open>
  C7, as the code has it. \<^verbatim>\<open>validate_field\<close> leaves the globals as
  \<^verbatim>\<open>_get_session_data\<close> of the current identifier leaves them: it creates the default
  empty session when the identifier has none and changes nothing else. A second call with
  the same field and value returns the same result and the same globals; every session is
  observed afterwards as before; a session that exists is not changed; the files and the
  current identifier are not changed.
\<close>

theorem validate_field_effect:
  "snd (validate_field L f v w) = snd (get_session_data (current_session_id w) w)
   \<and> validate_field L f v (snd (validate_field L f v w)) = validate_field L f v w
   \<and> (\<forall>sid. fst (get_session_data sid (snd (validate_field L f v w))) = fst (get_session_data sid w))
   \<and> (\<forall>sid s. sessions_data w sid = Some s \<longrightarrow> sessions_data (snd (validate_field L f v w)) sid = Some s)
   \<and> files (snd (validate_field L f v w)) = files w
   \<and> current_session_id (snd (validate_field L f v w)) = current_session_id w"
  by (simp add: validate_field_world validate_field_again get_session_data_other
        get_session_data_keeps_present get_session_data_files get_session_data_current_id)

text \<open>The theorem at a session that exists: nothing at all changes.\<close>

theorem validate_field_effect_witness:
  "sessions_data bob_world ''s'' = Some \<lparr>onboarding_state = bob_state, conversation_log = JArr []\<rparr>
   \<and> validate_field demo_lib ''email'' ''bob@example.com'' bob_world
       = (Inr ''Valid email: bob@example.com'', bob_world)
   \<and> validate_field demo_lib ''email'' ''bob@example.com''
        (snd (validate_field demo_lib ''email'' ''bob@example.com'' bob_world))
       = (Inr ''Valid email: bob@example.com'', bob_world)
   \<and> sessions_data (snd (validate_field demo_lib ''email'' ''bob@example.com'' bob_world)) ''s''
       = Some \<lparr>onboarding_state = bob_state, conversation_log = JArr []\<rparr>"
proof -
  have present: "sessions_data bob_world ''s'' = Some \<lparr>onboarding_state = bob_state, conversation_log = JArr []\<rparr>"
    by (simp add: bob_world_def)
  have run: "validate_field demo_lib ''email'' ''bob@example.com'' bob_world
       = (Inr ''Valid email: bob@example.com'', bob_world)"
    by (simp add: validate_field_def get_onboarding_state_def get_session_data_def bob_world_def
          bob_state_def UserOnboarding_def kwarg_def demo_lib_def strip_def is_space_def Let_def)
  show ?thesis
    using validate_field_effect [of demo_lib "''email''" "''bob@example.com''" bob_world] present run
    by simp
qed

text \<open>
  C7 as stated fails: on the module as imported, validating a name creates the session
  of the identifier \<^verbatim>\<open>""\<close>, which the store did not hold before.
\<close>

theorem validate_field_creates_session:
  "sessions_data (initial_world Map.empty) '''' = None
   \<and> fst (validate_field demo_lib ''name'' ''Bob'' (initial_world Map.empty)) = Inr ''Valid name: Bob''
   \<and> sessions_data (snd (validate_field demo_lib ''name'' ''Bob'' (initial_world Map.empty))) ''''
       = Some new_session"
  by (simp add: validate_field_def get_onboarding_state_def get_session_data_def initial_world_def
        new_session_def empty_onboarding_def UserOnboarding_def kwarg_def demo_lib_def strip_def
        is_space_def Let_def)

subsection \<open>Operations before the current identifier is set\<close>

lemma fresh_get:
  assumes "sessions_data w sid = None"
  shows "get_session_data sid w = (new_session, created sid w)"
  using assms by (simp add: get_session_data_def created_def)

lemma created_get:
  "get_session_data sid (created sid w) = (new_session, created sid w)"
  by (simp add: get_session_data_def created_def)

lemma fresh_validate:
  assumes "current_session_id w = []" "sessions_data w [] = None"
  shows "\<exists>r. validate_field L f v w = (Inr r, created [] w)"
  using assms
  by (simp add: validate_field_def get_onboarding_state_def fresh_get new_session_def
        empty_onboarding_def Let_def split: sum.splits bool.splits)

lemma fresh_store:
  assumes "current_session_id w = []" "sessions_data w [] = None"
  shows "\<exists>r s kvs. store_field L f v w = (Inr r, w\<lparr>sessions_data := (sessions_data w)([] \<mapsto> s)\<rparr>)
            \<and> onboarding_state s = JObj kvs
            \<and> map fst kvs = [''name'', ''email'', ''phone'', ''country'']
            \<and> conversation_log s = JArr []"
proof -
  have cid: "current_session_id (created [] w) = []"
    using assms by (simp add: created_def)
  have "validate_field L f v (created [] w) = validate_field L f v w"
    using validate_field_again [of L f v w] assms(1) fresh_get [OF assms(2)] by simp
  then obtain r where v: "validate_field L f v (created [] w) = (Inr r, created [] w)"
    using fresh_validate [OF assms, of L f v] by auto
  have shape: "onboarding_state new_session
                 = JObj [(''name'', JNull), (''email'', JNull), (''phone'', JNull), (''country'', JNull)]"
               "conversation_log new_session = JArr []"
    by (simp_all add: new_session_def empty_onboarding_def)
  have names: "map fst [(''name'', JNull), (''email'', JNull), (''phone'', JNull), (''country'', JNull :: json)]
                 = [''name'', ''email'', ''phone'', ''country'']"
    by simp
  show ?thesis
  proof (cases "f \<in> set [''name'', ''email'', ''phone'', ''country'']")
    case False
    then have st: "store_field L f v w
        = (Inr (''Invalid field: '' @ f @ ''. Must be one of: name, email, phone, country''),
           w\<lparr>sessions_data := (sessions_data w)([] \<mapsto> new_session)\<rparr>)"
      using assms
      by (simp add: store_field_def fresh_get [OF assms(2)] new_session_def empty_onboarding_def
            created_def Let_def)
    show ?thesis
        by (intro exI conjI, rule st, rule shape(1), rule names, rule shape(2))
  next
    case True
    show ?thesis
    proof (cases "startswith r ''Valid''")
      case False
      then have st: "store_field L f v w
          = (Inr (''Cannot store invalid value: '' @ r),
             w\<lparr>sessions_data := (sessions_data w)([] \<mapsto> new_session)\<rparr>)"
        using assms True v
        by (auto simp: store_field_def fresh_get [OF assms(2)] new_session_def
              empty_onboarding_def created_def Let_def)
      show ?thesis
        by (intro exI conjI, rule st, rule shape(1), rule names, rule shape(2))
    next
      case ok: True
      let ?kvs = "AList.update f (JStr v)
                   [(''name'', JNull), (''email'', JNull), (''phone'', JNull), (''country'', JNull)]"
      have st: "store_field L f v w
          = (Inr (capitalize f @ '' stored successfully: '' @ v),
             w\<lparr>sessions_data := (sessions_data w)([] \<mapsto>
                 new_session\<lparr>onboarding_state := JObj ?kvs\<rparr>)\<rparr>)"
        using assms True v ok
        by (auto simp: store_field_def fresh_get [OF assms(2)] new_session_def
              empty_onboarding_def created_def Let_def)
      have nm: "map fst ?kvs = [''name'', ''email'', ''phone'', ''country'']"
        using True by auto
      have sh: "onboarding_state (new_session\<lparr>onboarding_state := JObj ?kvs\<rparr>) = JObj ?kvs"
                    "conversation_log (new_session\<lparr>onboarding_state := JObj ?kvs\<rparr>) = JArr []"
        by (simp_all add: new_session_def)
      show ?thesis
        by (intro exI conjI, rule st, rule sh(1), rule nm, rule sh(2))
    qed
  qed
qed

text \<open>
  C10. While \<^verbatim>\<open>current_session_id\<close> is still \<^verbatim>\<open>""\<close> and no session is stored under
  it, each of the six operations returns a string and raises nothing, and the session
  under \<^verbatim>\<open>""\<close> exists afterwards: the default empty one for the four queries, the
  default one with the entry appended for \<^verbatim>\<open>log_message\<close>, and a dictionary of the
  four fields with an empty log for \<^verbatim>\<open>store_field\<close>.
\<close>

theorem unset_context_operations:
  assumes "current_session_id w = []" "sessions_data w [] = None"
  shows "(\<exists>r. validate_field L f v w = (Inr r, created [] w))
       \<and> (\<exists>r s kvs. store_field L f v w = (Inr r, w\<lparr>sessions_data := (sessions_data w)([] \<mapsto> s)\<rparr>)
            \<and> onboarding_state s = JObj kvs
            \<and> map fst kvs = [''name'', ''email'', ''phone'', ''country'']
            \<and> conversation_log s = JArr [])
       \<and> log_message now speaker text w
           = (Inr ''Message logged successfully for session '',
              w\<lparr>sessions_data := (sessions_data w)([] \<mapsto>
                   new_session\<lparr>conversation_log := JArr [message_entry speaker text now]\<rparr>)\<rparr>)
       \<and> is_onboarding_complete w
           = (Inr ''Onboarding incomplete. Missing: name, email, phone, country'', created [] w)
       \<and> get_summary L w = (Inr ''No onboarding data collected yet'', created [] w)
       \<and> get_current_state L w
           = (Inr ''Current onboarding state: Name: not provided, Email: not provided, Phone: not provided, Country: not provided'',
              created [] w)"
proof -
  have lg: "log_message now speaker text w
           = (Inr ''Message logged successfully for session '',
              w\<lparr>sessions_data := (sessions_data w)([] \<mapsto>
                   new_session\<lparr>conversation_log := JArr [message_entry speaker text now]\<rparr>)\<rparr>)"
    using assms by (simp add: log_message_def fresh_get Let_def created_def new_session_def)
  have ic: "is_onboarding_complete w
           = (Inr ''Onboarding incomplete. Missing: name, email, phone, country'', created [] w)"
    using assms
    by (simp add: is_onboarding_complete_def get_onboarding_state_def fresh_get new_session_def
          empty_onboarding_def Let_def)
  have gs: "get_summary L w = (Inr ''No onboarding data collected yet'', created [] w)"
    using assms
    by (simp add: get_summary_def get_onboarding_state_def fresh_get new_session_def
          empty_onboarding_def Let_def)
  have gc: "get_current_state L w
           = (Inr ''Current onboarding state: Name: not provided, Email: not provided, Phone: not provided, Country: not provided'',
              created [] w)"
    using assms
    by (simp add: get_current_state_def get_onboarding_state_def fresh_get new_session_def
          empty_onboarding_def state_parts_def to_upper_def to_lower_def lower_letters_def
          upper_letters_def Let_def)
  show ?thesis
    using fresh_validate [OF assms] fresh_store [OF assms] lg ic gs gc by blast
qed

text \<open>The theorem on the module as imported.\<close>

theorem unset_context_operations_witness:
  "current_session_id (initial_world Map.empty) = []
   \<and> sessions_data (initial_world Map.empty) [] = None
   \<and> (\<exists>r. validate_field demo_lib ''name'' ''Bob'' (initial_world Map.empty)
            = (Inr r, created [] (initial_world Map.empty)))
   \<and> is_onboarding_complete (initial_world Map.empty)
       = (Inr ''Onboarding incomplete. Missing: name, email, phone, country'',
          created [] (initial_world Map.empty))
   \<and> get_summary demo_lib (initial_world Map.empty)
       = (Inr ''No onboarding data collected yet'', created [] (initial_world Map.empty))
   \<and> sessions_data (created [] (initial_world Map.empty)) [] = Some new_session"
  using unset_context_operations [of "initial_world Map.empty" demo_lib "''name''" "''Bob''"]
  by (simp add: initial_world_def created_def)

subsection \<open>The phone pattern\<close>

text \<open>Up to \<open>n\<close> characters of a class: some \<open>i \<le> n\<close> leading characters are consumed.\<close>

lemma rmatch_upto_times:
  "rmatch (upto_times (Cls cs) n) s k
     = (\<exists>i\<le>n. i \<le> length s \<and> set (take i s) \<subseteq> set cs \<and> k (drop i s))"
proof (induction n arbitrary: s k)
  case 0
  then show ?case by simp
next
  case (Suc n)
  show ?case
  proof (cases s)
    case Nil
    then show ?thesis by (auto simp: opt_def)
  next
    case (Cons c t)
    have "rmatch (upto_times (Cls cs) (Suc n)) s k
            = ((c \<in> set cs \<and> (\<exists>i\<le>n. i \<le> length t \<and> set (take i t) \<subseteq> set cs \<and> k (drop i t))) \<or> k s)"
      using Cons Suc.IH by (simp add: opt_def)
    also have "\<dots> = (\<exists>j\<le>Suc n. j \<le> length s \<and> set (take j s) \<subseteq> set cs \<and> k (drop j s))"
    proof
      assume "(c \<in> set cs \<and> (\<exists>i\<le>n. i \<le> length t \<and> set (take i t) \<subseteq> set cs \<and> k (drop i t))) \<or> k s"
      then show "\<exists>j\<le>Suc n. j \<le> length s \<and> set (take j s) \<subseteq> set cs \<and> k (drop j s)"
      proof
        assume "c \<in> set cs \<and> (\<exists>i\<le>n. i \<le> length t \<and> set (take i t) \<subseteq> set cs \<and> k (drop i t))"
        then obtain i where "c \<in> set cs" "i \<le> n" "i \<le> length t" "set (take i t) \<subseteq> set cs" "k (drop i t)"
          by blast
        then have "Suc i \<le> Suc n \<and> Suc i \<le> length s \<and> set (take (Suc i) s) \<subseteq> set cs \<and> k (drop (Suc i) s)"
          using Cons by simp
        then show ?thesis by blast
      next
        assume "k s"
        then have "0 \<le> Suc n \<and> 0 \<le> length s \<and> set (take 0 s) \<subseteq> set cs \<and> k (drop 0 s)"
          by simp
        then show ?thesis by blast
      qed
    next
      assume "\<exists>j\<le>Suc n. j \<le> length s \<and> set (take j s) \<subseteq> set cs \<and> k (drop j s)"
      then obtain j where j: "j \<le> Suc n" "j \<le> length s" "set (take j s) \<subseteq> set cs" "k (drop j s)"
        by blast
      show "(c \<in> set cs \<and> (\<exists>i\<le>n. i \<le> length t \<and> set (take i t) \<subseteq> set cs \<and> k (drop i t))) \<or> k s"
      proof (cases j)
        case 0
        then show ?thesis using j by simp
      next
        case (Suc i)
        then have "c \<in> set cs" "i \<le> n" "i \<le> length t" "set (take i t) \<subseteq> set cs" "k (drop i t)"
          using j Cons by simp_all
        then show ?thesis by blast
      qed
    qed
    finally show ?thesis .
  qed
qed

lemma all_taken:
  "(\<exists>i\<le>n. i \<le> length s \<and> set (take i s) \<subseteq> A \<and> length s \<le> i) = (length s \<le> n \<and> set s \<subseteq> A)"
proof
  assume "\<exists>i\<le>n. i \<le> length s \<and> set (take i s) \<subseteq> A \<and> length s \<le> i"
  then obtain i where "i \<le> n" "i \<le> length s" "set (take i s) \<subseteq> A" "length s \<le> i" by blast
  then show "length s \<le> n \<and> set s \<subseteq> A" by simp
next
  assume "length s \<le> n \<and> set s \<subseteq> A"
  then have "length s \<le> n \<and> length s \<le> length s \<and> set (take (length s) s) \<subseteq> A \<and> length s \<le> length s"
    by simp
  then show "\<exists>i\<le>n. i \<le> length s \<and> set (take i s) \<subseteq> A \<and> length s \<le> i" by blast
qed

lemma times_digit: "times digit 1 14 = Seq digit (upto_times digit 13)"
  by (simp add: numeral_eq_Suc)

lemma rmatch_body:
  "rmatch (Seq (Cls ''123456789'') (times digit 1 14)) t (\<lambda>x. x = []) = phone_body t"
  unfolding times_digit
  by (simp add: digit_def rmatch_upto_times all_taken phone_body_def split: list.splits)

lemma rmatch_opt_plus:
  "rmatch (Seq (opt (Cls ''+'')) r) s k = (rmatch r s k \<or> (\<exists>t. s = CHR ''+'' # t \<and> rmatch r t k))"
  by (cases s) (auto simp: opt_def)

lemma fullmatch_phone: "fullmatch phone_pattern s = (phone_body s \<or> (\<exists>t. s = CHR ''+'' # t \<and> phone_body t))"
  unfolding fullmatch_def phone_pattern_def
  by (simp only: rmatch_opt_plus rmatch_body)

lemma phone_body_no_plus: "\<not> phone_body (CHR ''+'' # t)"
  by (simp add: phone_body_def)

lemma body_format_gen:
  assumes "B \<subseteq> A"
  shows "(case t of [] \<Rightarrow> False | c # u \<Rightarrow> c \<in> B \<and>
            (case u of [] \<Rightarrow> False | d # x \<Rightarrow> d \<in> A \<and> length x \<le> 13 \<and> set x \<subseteq> A))
         = (2 \<le> length t \<and> length t \<le> 15 \<and> list_all (\<lambda>c. c \<in> A) t
            \<and> (case t of [] \<Rightarrow> False | d # u \<Rightarrow> d \<in> B))"
proof (cases t)
  case Nil
  then show ?thesis by simp
next
  case (Cons c u)
  show ?thesis
  proof (cases u)
    case Nil
    then show ?thesis using Cons by simp
  next
    case (Cons d x)
    then show ?thesis
      using \<open>t = c # u\<close> assms by (auto simp: list_all_iff)
  qed
qed

lemma digits_sub: "set ''123456789'' \<subseteq> set ''0123456789''"
  by simp

lemma phone_body_format:
  "phone_body t = (2 \<le> length t \<and> length t \<le> 15 \<and> list_all (\<lambda>c. c \<in> set ''0123456789'') t
                   \<and> (case t of [] \<Rightarrow> False | d # u \<Rightarrow> d \<in> set ''123456789''))"
  unfolding phone_body_def by (rule body_format_gen [OF digits_sub])

lemma phone_format_plus: "phone_format (CHR ''+'' # t) = phone_body t"
  unfolding phone_body_format phone_format_def Let_def by (simp only: list.case refl if_True)

lemma phone_format_other: "c \<noteq> CHR ''+'' \<Longrightarrow> phone_format (c # t) = phone_body (c # t)"
  unfolding phone_body_format phone_format_def Let_def by (simp only: list.case if_False)

lemma phone_format_nil: "phone_format [] = phone_body []"
  unfolding phone_body_format phone_format_def Let_def by (simp only: list.case)

text \<open>The pattern accepts exactly the strings of the international format.\<close>

lemma fullmatch_phone_format: "fullmatch phone_pattern s = phone_format s"
proof (cases s)
  case Nil
  then show ?thesis by (simp add: fullmatch_phone phone_format_nil)
next
  case (Cons c t)
  show ?thesis
  proof (cases "c = CHR ''+''")
    case True
    have "fullmatch phone_pattern s = phone_body t"
      unfolding fullmatch_phone using Cons True phone_body_no_plus [of t] by blast
    then show ?thesis
      using Cons True phone_format_plus [of t] by simp
  next
    case False
    have "fullmatch phone_pattern s = phone_body s"
      unfolding fullmatch_phone using Cons False by blast
    then show ?thesis
      using Cons phone_format_other [OF False, of t] by simp
  qed
qed

subsection \<open>Validation of a field\<close>

lemma kwarg_update: "kwarg (AList.update f x kvs) k = (if k = f then x else kwarg kvs k)"
  by (simp add: kwarg_def update_conv')

lemma startswith_valid: "startswith (''Valid '' @ x) ''Valid''"
  by (simp add: startswith_def)

lemma startswith_invalid: "\<not> startswith (''Invalid '' @ x) ''Valid''"
  by (simp add: startswith_def)

lemma validate_field_dict:
  assumes "onboarding_state (current_session w) = JObj kvs" "f \<in> fst ` set kvs"
  shows "fst (validate_field L f v w)
           = Inr (case UserOnboarding L (AList.update f (JStr v) kvs) of
                    Inr u \<Rightarrow> ''Valid '' @ f @ '': '' @ v
                  | Inl msg \<Rightarrow> ''Invalid '' @ f @ '': '' @ msg)"
  using assms
  by (simp add: validate_field_def get_onboarding_state_eq split: sum.splits)

lemma says_valid_dict:
  assumes "onboarding_state (current_session w) = JObj kvs" "f \<in> fst ` set kvs"
  shows "says_valid (validate_field L f v w) = (UserOnboarding L (AList.update f (JStr v) kvs) = Inr ())"
  unfolding says_valid_def validate_field_dict [OF assms]
  using startswith_valid [of "f @ '': '' @ v"] startswith_invalid
  by (auto split: sum.splits)

lemma model_valid:
  "(UserOnboarding L kvs = Inr ())
     = (name_field (kwarg kvs ''name'') \<and> email_field L (kwarg kvs ''email'')
        \<and> phone_field (kwarg kvs ''phone'') \<and> validate_country L (kwarg kvs ''country''))"
  by (simp add: UserOnboarding_def)

text \<open>
  C5. Let the onboarding state of the current session be a dictionary whose other
  fields pass the model (as they do in every state built by \<^verbatim>\<open>store_field\<close>, and in
  the empty one). Then \<^verbatim>\<open>validate_field\<close> accepts a value for \<^verbatim>\<open>name\<close> if and only if
  the length of the value as given is between 2 and 100, and a value for \<^verbatim>\<open>phone\<close> if
  and only if the value as given has the international format: an optional \<^verbatim>\<open>+\<close>,
  2 to 15 digits, the first from 1 to 9. The claim speaks of the trimmed value, and the
  declaration asks for it with \<^verbatim>\<open>strip_whitespace=True\<close>; the keyword has no effect, so
  nothing is trimmed.
\<close>

theorem name_and_phone_raw_rules:
  assumes "onboarding_state (current_session w) = JObj kvs"
  shows "(''name'' \<in> fst ` set kvs \<and> others_valid L ''name'' kvs \<longrightarrow>
            says_valid (validate_field L ''name'' v w) = (2 \<le> length v \<and> length v \<le> 100))
       \<and> (''phone'' \<in> fst ` set kvs \<and> others_valid L ''phone'' kvs \<longrightarrow>
            says_valid (validate_field L ''phone'' v w) = phone_format v)"
proof (intro conjI impI)
  assume h: "''name'' \<in> fst ` set kvs \<and> others_valid L ''name'' kvs"
  then have "says_valid (validate_field L ''name'' v w)
               = (UserOnboarding L (AList.update ''name'' (JStr v) kvs) = Inr ())"
    using says_valid_dict [OF assms] by blast
  also have "\<dots> = name_field (JStr v)"
    using h by (simp add: others_valid_def model_valid kwarg_update)
  finally show "says_valid (validate_field L ''name'' v w) = (2 \<le> length v \<and> length v \<le> 100)"
    by simp
next
  assume h: "''phone'' \<in> fst ` set kvs \<and> others_valid L ''phone'' kvs"
  then have "says_valid (validate_field L ''phone'' v w)
               = (UserOnboarding L (AList.update ''phone'' (JStr v) kvs) = Inr ())"
    using says_valid_dict [OF assms] by blast
  also have "\<dots> = phone_field (JStr v)"
    using h by (simp add: others_valid_def model_valid kwarg_update)
  finally show "says_valid (validate_field L ''phone'' v w) = phone_format v"
    by (simp add: fullmatch_phone_format)
qed

lemma strip_padded_name: "strip '' A '' = ''A''"
  by (simp add: strip_def is_space_def)

lemma strip_padded_phone: "strip '' +14155551234 '' = ''+14155551234''"
  by (simp add: strip_def is_space_def)

lemma bob_others:
  "others_valid demo_lib f [(''name'', JStr ''Bob''), (''email'', JNull), (''phone'', JNull), (''country'', JNull)]"
  by (simp add: others_valid_def model_valid kwarg_update kwarg_def)

text \<open>
  The theorem at a padded name of one letter, which is accepted though its trimmed
  length is 1, and at a padded phone number, which is rejected though the trimmed value
  has the format.
\<close>

theorem name_and_phone_raw_rules_witness:
  "onboarding_state (current_session bob_world) = bob_state
   \<and> says_valid (validate_field demo_lib ''name'' '' A '' bob_world)
   \<and> length (strip '' A '') = 1
   \<and> \<not> says_valid (validate_field demo_lib ''phone'' '' +14155551234 '' bob_world)
   \<and> phone_format (strip '' +14155551234 '')"
proof -
  have st: "onboarding_state (current_session bob_world)
              = JObj [(''name'', JStr ''Bob''), (''email'', JNull), (''phone'', JNull), (''country'', JNull)]"
    by (simp add: bob_current bob_state_def)
  have pf: "phone_format ''+14155551234''"
    by (simp add: phone_format_def)
  have npf: "\<not> phone_format '' +14155551234 ''"
    by (simp add: phone_format_def)
  show ?thesis
    using name_and_phone_raw_rules [OF st, of demo_lib "'' A ''"]
          name_and_phone_raw_rules [OF st, of demo_lib "'' +14155551234 ''"]
          bob_others pf npf
    by (simp add: strip_padded_name strip_padded_phone bob_current)
qed

subsection \<open>Storing a field\<close>

text \<open>
  The confirmation of \<^verbatim>\<open>store_field\<close> is none of its rejections, whatever the field
  and the value: the strings differ at a position fixed by the length of the field.
\<close>

lemma to_lower_not_I: "to_lower c \<noteq> CHR ''I''"
  by (simp add: to_lower_def upper_letters_def lower_letters_def)

lemma length_capitalize: "length (capitalize f) = length f"
  by (cases f) simp_all

lemma nth_capitalize: "0 < i \<Longrightarrow> i < length f \<Longrightarrow> capitalize f ! i = to_lower (f ! i)"
  by (cases f; cases i) simp_all

lemma confirm_ne_invalid_field:
  "capitalize f @ '' stored successfully: '' @ v
     \<noteq> ''Invalid field: '' @ f @ ''. Must be one of: name, email, phone, country''"
proof
  assume "capitalize f @ '' stored successfully: '' @ v
            = ''Invalid field: '' @ f @ ''. Must be one of: name, email, phone, country''"
  then have "(capitalize f @ '' stored successfully: '' @ v) ! (length f + 15)
            = (''Invalid field: '' @ f @ ''. Must be one of: name, email, phone, country'') ! (length f + 15)"
    by simp
  moreover have "(capitalize f @ '' stored successfully: '' @ v) ! (length f + 15) = CHR ''f''"
    by (simp add: nth_append length_capitalize)
  moreover have "(''Invalid field: '' @ f @ ''. Must be one of: name, email, phone, country'') ! (length f + 15) = CHR ''.''"
  proof -
    have "(''Invalid field: '' @ (f @ ''. Must be one of: name, email, phone, country'')) ! (length f + 15)
            = (f @ ''. Must be one of: name, email, phone, country'') ! length f"
      by (subst nth_append) simp
    then show ?thesis by (simp add: nth_append)
  qed
  ultimately show False by simp
qed

lemma cannot_prefix_scan:
  "list_all (\<lambda>n. \<not> (''Cannot store invalid value: Invalid '' ! n = CHR '' ''
                      \<and> ''Cannot store invalid value: Invalid '' ! (n + 1) = CHR ''s''
                      \<and> ''Cannot store invalid value: Invalid '' ! (n + 6) = CHR ''d''))
            [0..<29]"
  by code_simp

lemma confirm_ne_cannot:
  "capitalize f @ '' stored successfully: '' @ v \<noteq> ''Cannot store invalid value: Invalid '' @ x"
proof
  let ?L = "capitalize f @ '' stored successfully: '' @ v"
  let ?P = "''Cannot store invalid value: Invalid ''"
  let ?n = "length f"
  assume eq: "?L = ?P @ x"
  have R: "(?P @ x) ! i = ?P ! i" if "i < 36" for i
    using that by (simp only: nth_append) simp
  show False
  proof (cases "?n \<le> 28")
    case False
    then have "?L ! 28 = to_lower (f ! 28)"
      by (simp add: nth_append length_capitalize nth_capitalize)
    moreover have "(?P @ x) ! 28 = CHR ''I''"
      using R [of 28] by simp
    ultimately show False
      using eq to_lower_not_I [of "f ! 28"] by simp
  next
    case True
    have "?L ! (?n + 0) = CHR '' ''" "?L ! (?n + 1) = CHR ''s''" "?L ! (?n + 6) = CHR ''d''"
      by (simp_all add: nth_append length_capitalize)
    then have "?P ! ?n = CHR '' ''" "?P ! (?n + 1) = CHR ''s''" "?P ! (?n + 6) = CHR ''d''"
      using eq R [of ?n] R [of "?n + 1"] R [of "?n + 6"] True by simp_all
    moreover have "?n \<in> set [0..<29]"
      using True by simp
    ultimately show False
      using cannot_prefix_scan unfolding list_all_iff by blast
  qed
qed

text \<open>\<^verbatim>\<open>validate_field\<close> and \<^verbatim>\<open>store_field\<close> by the shape of the onboarding state.\<close>

lemma current_session_fetch:
  obtains w1 where "get_session_data (current_session_id w) w = (current_session w, w1)"
                   "snd (get_session_data (current_session_id w) w) = w1"
                   "validate_field L f v w1 = validate_field L f v w"
proof -
  have "get_session_data (current_session_id w) w
          = (current_session w, snd (get_session_data (current_session_id w) w))"
    by (simp add: current_session_def)
  then show ?thesis
    using that validate_field_again [of L f v w] by blast
qed

lemma validate_field_obj:
  assumes "onboarding_state (current_session w) = JObj kvs"
  shows "validate_field L f v w =
     (if f \<in> fst ` set kvs
      then (case UserOnboarding L (AList.update f (JStr v) kvs) of
              Inr u \<Rightarrow> Inr (''Valid '' @ f @ '': '' @ v)
            | Inl msg \<Rightarrow> Inr (''Invalid '' @ f @ '': '' @ msg),
            snd (get_session_data (current_session_id w) w))
      else (Inr (''Invalid field: '' @ f @ ''. Must be one of: name, email, phone, country''),
            snd (get_session_data (current_session_id w) w)))"
  using assms
  by (simp add: validate_field_def get_onboarding_state_eq split: sum.splits)

lemma validate_field_arr:
  assumes "onboarding_state (current_session w) = JArr xs"
  shows "validate_field L f v w =
     (if JStr f \<in> set xs
      then (Inl (TypeError ''list indices must be integers or slices, not str''),
            snd (get_session_data (current_session_id w) w))
      else (Inr (''Invalid field: '' @ f @ ''. Must be one of: name, email, phone, country''),
            snd (get_session_data (current_session_id w) w)))"
  using assms
  by (simp add: validate_field_def get_onboarding_state_eq)

lemma validate_field_str:
  assumes "onboarding_state (current_session w) = JStr s0"
  shows "validate_field L f v w =
     (if str_contains f s0
      then (Inl (AttributeError ([CHR 0x27] @ ''str'' @ [CHR 0x27] @ '' object has no attribute ''
                    @ [CHR 0x27] @ ''copy'' @ [CHR 0x27])),
            snd (get_session_data (current_session_id w) w))
      else (Inr (''Invalid field: '' @ f @ ''. Must be one of: name, email, phone, country''),
            snd (get_session_data (current_session_id w) w)))"
  using assms
  by (simp add: validate_field_def get_onboarding_state_eq)

lemma validate_field_raises:
  assumes "py_in f (onboarding_state (current_session w)) = Inl e"
  shows "validate_field L f v w = (Inl e, snd (get_session_data (current_session_id w) w))"
  using assms
  by (simp add: validate_field_def get_onboarding_state_eq)

lemma store_field_obj:
  assumes "onboarding_state (current_session w) = JObj kvs"
  shows "store_field L f v w =
     (if f \<in> fst ` set kvs
      then (case UserOnboarding L (AList.update f (JStr v) kvs) of
              Inr u \<Rightarrow>
                (Inr (capitalize f @ '' stored successfully: '' @ v),
                 (snd (get_session_data (current_session_id w) w))
                   \<lparr>sessions_data :=
                      (sessions_data (snd (get_session_data (current_session_id w) w)))
                        (current_session_id w \<mapsto>
                           (current_session w)\<lparr>onboarding_state := JObj (AList.update f (JStr v) kvs)\<rparr>)\<rparr>)
            | Inl msg \<Rightarrow>
                (Inr (''Cannot store invalid value: Invalid '' @ f @ '': '' @ msg),
                 snd (get_session_data (current_session_id w) w)))
      else (Inr (''Invalid field: '' @ f @ ''. Must be one of: name, email, phone, country''),
            snd (get_session_data (current_session_id w) w)))"
proof -
  obtain w1 where g: "get_session_data (current_session_id w) w = (current_session w, w1)"
    and w1: "snd (get_session_data (current_session_id w) w) = w1"
    and v: "validate_field L f v w1 = validate_field L f v w"
    by (rule current_session_fetch)
  show ?thesis
    using assms
    by (simp add: store_field_def g v validate_field_obj [OF assms] w1 startswith_def split: sum.splits)
qed

lemma store_field_arr:
  assumes "onboarding_state (current_session w) = JArr xs"
  shows "store_field L f v w =
     (if JStr f \<in> set xs
      then (Inl (TypeError ''list indices must be integers or slices, not str''),
            snd (get_session_data (current_session_id w) w))
      else (Inr (''Invalid field: '' @ f @ ''. Must be one of: name, email, phone, country''),
            snd (get_session_data (current_session_id w) w)))"
proof -
  obtain w1 where g: "get_session_data (current_session_id w) w = (current_session w, w1)"
    and w1: "snd (get_session_data (current_session_id w) w) = w1"
    and v: "validate_field L f v w1 = validate_field L f v w"
    by (rule current_session_fetch)
  show ?thesis
    using assms
    by (simp add: store_field_def g v validate_field_arr [OF assms] w1)
qed

lemma store_field_str:
  assumes "onboarding_state (current_session w) = JStr s0"
  shows "store_field L f v w =
     (if str_contains f s0
      then (Inl (AttributeError ([CHR 0x27] @ ''str'' @ [CHR 0x27] @ '' object has no attribute ''
                    @ [CHR 0x27] @ ''copy'' @ [CHR 0x27])),
            snd (get_session_data (current_session_id w) w))
      else (Inr (''Invalid field: '' @ f @ ''. Must be one of: name, email, phone, country''),
            snd (get_session_data (current_session_id w) w)))"
proof -
  obtain w1 where g: "get_session_data (current_session_id w) w = (current_session w, w1)"
    and w1: "snd (get_session_data (current_session_id w) w) = w1"
    and v: "validate_field L f v w1 = validate_field L f v w"
    by (rule current_session_fetch)
  show ?thesis
    using assms
    by (simp add: store_field_def g v validate_field_str [OF assms] w1)
qed

lemma store_field_raises:
  assumes "py_in f (onboarding_state (current_session w)) = Inl e"
  shows "store_field L f v w = (Inl e, snd (get_session_data (current_session_id w) w))"
proof -
  obtain w1 where g: "get_session_data (current_session_id w) w = (current_session w, w1)"
    and w1: "snd (get_session_data (current_session_id w) w) = w1"
    by (rule current_session_fetch)
  show ?thesis
    using assms by (simp add: store_field_def g w1)
qed

lemma invalid_field_not_valid:
  "\<not> startswith (''Invalid field: '' @ x) ''Valid''"
  by (simp add: startswith_def)

text \<open>Both operations succeed in the same case: a dictionary that holds the field and passes the model with the value.\<close>

lemma says_valid_iff:
  "says_valid (validate_field L f v w)
     = (\<exists>kvs. onboarding_state (current_session w) = JObj kvs \<and> f \<in> fst ` set kvs
              \<and> UserOnboarding L (AList.update f (JStr v) kvs) = Inr ())"
proof (cases "onboarding_state (current_session w)")
  case (JObj kvs)
  then show ?thesis
    by (auto simp: says_valid_def validate_field_obj [OF JObj] startswith_def split: sum.splits)
next
  case (JArr xs)
  then show ?thesis
    by (simp add: says_valid_def validate_field_arr [OF JArr] startswith_def)
next
  case (JStr s0)
  then show ?thesis
    by (simp add: says_valid_def validate_field_str [OF JStr] startswith_def)
next
  case JNull
  then show ?thesis by (simp add: says_valid_def validate_field_raises)
next
  case (JBool b)
  then show ?thesis by (simp add: says_valid_def validate_field_raises)
next
  case (JInt n)
  then show ?thesis by (simp add: says_valid_def validate_field_raises)
qed

lemma store_confirmed_iff:
  "store_confirmed f v (store_field L f v w)
     = (\<exists>kvs. onboarding_state (current_session w) = JObj kvs \<and> f \<in> fst ` set kvs
              \<and> UserOnboarding L (AList.update f (JStr v) kvs) = Inr ())"
proof (cases "onboarding_state (current_session w)")
  case (JObj kvs)
  show ?thesis
  proof (cases "f \<in> fst ` set kvs")
    case False
    then show ?thesis
      using JObj confirm_ne_invalid_field [of f v]
      by (simp add: store_confirmed_def store_field_obj [OF JObj] del: append.simps)
  next
    case True
    show ?thesis
    proof (cases "UserOnboarding L (AList.update f (JStr v) kvs)")
      case (Inl msg)
      then show ?thesis
        using JObj True confirm_ne_cannot [of f v "f @ '': '' @ msg"]
        by (simp add: store_confirmed_def store_field_obj [OF JObj])
    next
      case (Inr u)
      then show ?thesis
        using JObj True by (simp add: store_confirmed_def store_field_obj [OF JObj])
    qed
  qed
next
  case (JArr xs)
  then show ?thesis
    using confirm_ne_invalid_field [of f v]
    by (simp add: store_confirmed_def store_field_arr [OF JArr] del: append.simps)
next
  case (JStr s0)
  then show ?thesis
    using confirm_ne_invalid_field [of f v]
    by (simp add: store_confirmed_def store_field_str [OF JStr] del: append.simps)
next
  case JNull
  then show ?thesis by (simp add: store_confirmed_def store_field_raises)
next
  case (JBool b)
  then show ?thesis by (simp add: store_confirmed_def store_field_raises)
next
  case (JInt n)
  then show ?thesis by (simp add: store_confirmed_def store_field_raises)
qed

lemma store_rejected_world:
  assumes "\<not> says_valid (validate_field L f v w)"
  shows "snd (store_field L f v w) = snd (get_session_data (current_session_id w) w)"
proof (cases "onboarding_state (current_session w)")
  case (JObj kvs)
  then show ?thesis
    using assms unfolding says_valid_iff
    by (cases "UserOnboarding L (AList.update f (JStr v) kvs)")
       (simp_all add: store_field_obj [OF JObj])
next
  case (JArr xs)
  then show ?thesis by (simp add: store_field_arr [OF JArr])
next
  case (JStr s0)
  then show ?thesis by (simp add: store_field_str [OF JStr])
next
  case JNull
  then show ?thesis by (simp add: store_field_raises)
next
  case (JBool b)
  then show ?thesis by (simp add: store_field_raises)
next
  case (JInt n)
  then show ?thesis by (simp add: store_field_raises)
qed

lemma update_member: "(k, x) \<in> set (AList.update k x al)"
  by (induction al) auto

lemma state_parts_member:
  assumes "(f, JStr v) \<in> set kvs" "v \<noteq> []"
  shows "capitalize f @ '': '' @ v \<in> set (state_parts L kvs)"
proof -
  have "(\<lambda>(field, value). capitalize field @ '': '' @ (if truthy value then py_str L value else ''not provided''))
          (f, JStr v) \<in> set (state_parts L kvs)"
    unfolding state_parts_def using assms(1) by (simp only: set_map) (rule imageI)
  then show ?thesis using assms(2) by simp
qed

lemma strip_nil: "strip [] = []"
  by (simp add: strip_def)

lemma lower_nil_iff: "([] = lower s) = (s = [])"
  by (auto simp: lower_def)

lemma valid_value_nonempty:
  assumes "\<not> email_str L []" "[] \<notin> set (country_names L)"
      and "UserOnboarding L (AList.update f (JStr v) kvs) = Inr ()"
      and "f \<in> set [''name'', ''email'', ''phone'', ''country'']"
  shows "v \<noteq> []"
proof
  assume "v = []"
  then have ok: "UserOnboarding L (AList.update f (JStr []) kvs) = Inr ()"
    using assms(3) by simp
  have np: "\<not> fullmatch phone_pattern []"
    by (simp add: fullmatch_phone_format phone_format_def)
  have nc: "[] \<notin> set (map lower (country_names L))"
    using assms(2) by (auto simp: lower_nil_iff)
  consider "f = ''name''" | "f = ''email''" | "f = ''phone''" | "f = ''country''"
    using assms(4) by auto
  then show False
  proof cases
    case 1
    then show False using ok by (simp add: model_valid kwarg_update strip_nil)
  next
    case 2
    then show False using ok assms(1) by (simp add: model_valid kwarg_update)
  next
    case 3
    then show False using ok np by (simp add: model_valid kwarg_update strip_nil)
  next
    case 4
    then show False using ok nc by (simp add: model_valid kwarg_update lower_def)
  qed
qed

lemma get_current_state_obj:
  assumes "onboarding_state (current_session w) = JObj kvs"
  shows "fst (get_current_state L w) = Inr (''Current onboarding state: '' @ join '', '' (state_parts L kvs))"
  using assms by (simp add: get_current_state_def get_onboarding_state_eq)

lemma store_accepted:
  assumes "onboarding_state (current_session w) = JObj kvs" "f \<in> fst ` set kvs"
      and "UserOnboarding L (AList.update f (JStr v) kvs) = Inr ()"
  shows "current_session (snd (store_field L f v w))
           = (current_session w)\<lparr>onboarding_state := JObj (AList.update f (JStr v) kvs)\<rparr>"
proof -
  have cid: "current_session_id (snd (get_session_data (current_session_id w) w)) = current_session_id w"
    by (rule get_session_data_current_id)
  show ?thesis
    using assms cid
    by (simp add: store_field_obj [OF assms(1)] current_session_def get_session_data_def)
qed

text \<open>
  C1. Let \<^verbatim>\<open>EmailStr\<close> reject the empty string and no country have the empty name.
  For every field, value and state, \<^verbatim>\<open>store_field\<close> returns its confirmation if and
  only if \<^verbatim>\<open>validate_field\<close> on the same state returns a \<^verbatim>\<open>Valid\<close> result. On success
  the current session holds the value under the field, its conversation log is as
  before, and \<^verbatim>\<open>get_current_state\<close> lists the parts of the updated dictionary, among
  them, for each of the four onboarding fields, the capitalised field name followed by the
  value. On failure every session is observed as before.
\<close>

theorem store_field_iff_validate:
  assumes "\<not> email_str L []" "[] \<notin> set (country_names L)"
  shows "store_confirmed f v (store_field L f v w) = says_valid (validate_field L f v w)
       \<and> (says_valid (validate_field L f v w) \<longrightarrow>
            (\<exists>kvs. onboarding_state (current_session (snd (store_field L f v w))) = JObj kvs
                 \<and> map_of kvs f = Some (JStr v)
                 \<and> conversation_log (current_session (snd (store_field L f v w)))
                     = conversation_log (current_session w)
                 \<and> fst (get_current_state L (snd (store_field L f v w)))
                     = Inr (''Current onboarding state: '' @ join '', '' (state_parts L kvs))
                 \<and> (f \<in> set [''name'', ''email'', ''phone'', ''country''] \<longrightarrow>
                      capitalize f @ '': '' @ v \<in> set (state_parts L kvs))))
       \<and> (\<not> says_valid (validate_field L f v w) \<longrightarrow>
            (\<forall>sid. fst (get_session_data sid (snd (store_field L f v w)))
                     = fst (get_session_data sid w)))"
proof (intro conjI impI)
  show "store_confirmed f v (store_field L f v w) = says_valid (validate_field L f v w)"
    by (simp only: store_confirmed_iff says_valid_iff)
next
  assume "says_valid (validate_field L f v w)"
  then obtain kvs where ob: "onboarding_state (current_session w) = JObj kvs"
    and key: "f \<in> fst ` set kvs"
    and ok: "UserOnboarding L (AList.update f (JStr v) kvs) = Inr ()"
    unfolding says_valid_iff by blast
  let ?kvs = "AList.update f (JStr v) kvs"
  let ?w = "snd (store_field L f v w)"
  have cs: "current_session ?w = (current_session w)\<lparr>onboarding_state := JObj ?kvs\<rparr>"
    by (rule store_accepted [OF ob key ok])
  have a: "onboarding_state (current_session ?w) = JObj ?kvs"
    by (simp add: cs)
  have b: "map_of ?kvs f = Some (JStr v)"
    by (simp add: update_conv')
  have c: "conversation_log (current_session ?w) = conversation_log (current_session w)"
    by (simp add: cs)
  have d: "fst (get_current_state L ?w) = Inr (''Current onboarding state: '' @ join '', '' (state_parts L ?kvs))"
    by (rule get_current_state_obj [OF a])
  have e: "f \<in> set [''name'', ''email'', ''phone'', ''country''] \<longrightarrow>
             capitalize f @ '': '' @ v \<in> set (state_parts L ?kvs)"
  proof
    assume "f \<in> set [''name'', ''email'', ''phone'', ''country'']"
    then have "v \<noteq> []"
      by (rule valid_value_nonempty [OF assms ok])
    then show "capitalize f @ '': '' @ v \<in> set (state_parts L ?kvs)"
      by (rule state_parts_member [OF update_member])
  qed
  show "\<exists>kvs. onboarding_state (current_session ?w) = JObj kvs
                 \<and> map_of kvs f = Some (JStr v)
                 \<and> conversation_log (current_session ?w) = conversation_log (current_session w)
                 \<and> fst (get_current_state L ?w)
                     = Inr (''Current onboarding state: '' @ join '', '' (state_parts L kvs))
                 \<and> (f \<in> set [''name'', ''email'', ''phone'', ''country''] \<longrightarrow>
                      capitalize f @ '': '' @ v \<in> set (state_parts L kvs))"
    by (intro exI conjI, rule a, rule b, rule c, rule d, rule e)
next
  assume "\<not> says_valid (validate_field L f v w)"
  then have "snd (store_field L f v w) = snd (get_session_data (current_session_id w) w)"
    by (rule store_rejected_world)
  then show "\<forall>sid. fst (get_session_data sid (snd (store_field L f v w))) = fst (get_session_data sid w)"
    by (simp add: get_session_data_other)
qed

lemma demo_lib_ok: "\<not> email_str demo_lib [] \<and> [] \<notin> set (country_names demo_lib)"
  by (simp add: demo_lib_def)

lemma bob_onboarding:
  "onboarding_state (current_session bob_world)
     = JObj [(''name'', JStr ''Bob''), (''email'', JNull), (''phone'', JNull), (''country'', JNull)]"
  by (simp add: bob_current bob_state_def)

lemma bob_phone_model:
  "UserOnboarding demo_lib (AList.update ''phone'' (JStr ''+14155551234'')
      [(''name'', JStr ''Bob''), (''email'', JNull), (''phone'', JNull), (''country'', JNull)]) = Inr ()"
  by (simp add: model_valid kwarg_def fullmatch_phone_format phone_format_def strip_def is_space_def)

lemma bob_phone_valid: "says_valid (validate_field demo_lib ''phone'' ''+14155551234'' bob_world)"
  unfolding says_valid_iff bob_onboarding using bob_phone_model by simp

lemma bob_phone_state:
  "fst (get_current_state demo_lib (snd (store_field demo_lib ''phone'' ''+14155551234'' bob_world)))
     = Inr ''Current onboarding state: Name: Bob, Email: not provided, Phone: +14155551234, Country: not provided''"
proof -
  have "onboarding_state (current_session (snd (store_field demo_lib ''phone'' ''+14155551234'' bob_world)))
          = JObj [(''name'', JStr ''Bob''), (''email'', JNull), (''phone'', JStr ''+14155551234''), (''country'', JNull)]"
    using store_accepted [OF bob_onboarding _ bob_phone_model] by (simp add: bob_current bob_state_def)
  then show ?thesis
    by (simp add: get_current_state_obj state_parts_def to_upper_def to_lower_def
          lower_letters_def upper_letters_def)
qed

lemma bob_email_rejected: "\<not> says_valid (validate_field demo_lib ''email'' ''not-an-email'' bob_world)"
  unfolding says_valid_iff bob_onboarding
  by (simp add: model_valid kwarg_def demo_lib_def)

text \<open>The theorem at a phone number that is stored and an email that is rejected.\<close>

theorem store_field_iff_validate_witness:
  "\<not> email_str demo_lib [] \<and> [] \<notin> set (country_names demo_lib)
   \<and> says_valid (validate_field demo_lib ''phone'' ''+14155551234'' bob_world)
   \<and> store_confirmed ''phone'' ''+14155551234'' (store_field demo_lib ''phone'' ''+14155551234'' bob_world)
   \<and> fst (get_current_state demo_lib (snd (store_field demo_lib ''phone'' ''+14155551234'' bob_world)))
       = Inr ''Current onboarding state: Name: Bob, Email: not provided, Phone: +14155551234, Country: not provided''
   \<and> \<not> says_valid (validate_field demo_lib ''email'' ''not-an-email'' bob_world)
   \<and> \<not> store_confirmed ''email'' ''not-an-email'' (store_field demo_lib ''email'' ''not-an-email'' bob_world)
   \<and> fst (get_session_data ''s'' (snd (store_field demo_lib ''email'' ''not-an-email'' bob_world)))
       = fst (get_session_data ''s'' bob_world)"
  using store_field_iff_validate [of demo_lib "''phone''" "''+14155551234''" bob_world]
        store_field_iff_validate [of demo_lib "''email''" "''not-an-email''" bob_world]
        demo_lib_ok bob_phone_valid bob_phone_state bob_email_rejected
  by simp

subsection \<open>Ordinary sessions stay ordinary\<close>

text \<open>
  On a current session of the ordinary shape (the one created on first access is one),
  each of the six operations returns a string and leaves a session of that shape; so the
  operations can follow one another without an exception.
\<close>

lemma ordinaryE:
  assumes "ordinary s"
  obtains kvs es where "onboarding_state s = JObj kvs" "conversation_log s = JArr es"
  using assms by (auto simp: ordinary_def split: json.splits)

lemma new_session_ordinary: "ordinary new_session"
  by (simp add: ordinary_def new_session_def empty_onboarding_def)

lemma current_session_after_fetch:
  "current_session (snd (get_session_data (current_session_id w) w)) = current_session w"
  by (simp add: current_session_def get_session_data_current_id get_session_data_again)

lemma query_keeps_current:
  assumes "snd out = snd (get_session_data (current_session_id w) w)"
  shows "current_session (snd out) = current_session w"
  using assms by (simp add: current_session_after_fetch)

lemma is_onboarding_complete_world:
  "snd (is_onboarding_complete w) = snd (get_session_data (current_session_id w) w)"
  by (simp add: is_onboarding_complete_def get_onboarding_state_eq Let_def split: sum.splits)

lemma get_summary_world:
  "snd (get_summary L w) = snd (get_session_data (current_session_id w) w)"
  by (simp add: get_summary_def get_onboarding_state_eq Let_def split: sum.splits)

lemma get_current_state_world:
  "snd (get_current_state L w) = snd (get_session_data (current_session_id w) w)"
  by (simp add: get_current_state_def get_onboarding_state_eq Let_def split: sum.splits)

lemma ordinary_operations_return:
  assumes "ordinary (current_session w)"
  shows "returned (validate_field L f v w) \<and> ordinary (current_session (snd (validate_field L f v w)))"
    and "returned (store_field L f v w) \<and> ordinary (current_session (snd (store_field L f v w)))"
    and "returned (log_message now speaker text w)
         \<and> ordinary (current_session (snd (log_message now speaker text w)))"
    and "returned (is_onboarding_complete w) \<and> ordinary (current_session (snd (is_onboarding_complete w)))"
    and "returned (get_summary L w) \<and> ordinary (current_session (snd (get_summary L w)))"
    and "returned (get_current_state L w) \<and> ordinary (current_session (snd (get_current_state L w)))"
proof -
  obtain kvs es where ob: "onboarding_state (current_session w) = JObj kvs"
    and lg: "conversation_log (current_session w) = JArr es"
    using assms by (rule ordinaryE)
  show "returned (validate_field L f v w) \<and> ordinary (current_session (snd (validate_field L f v w)))"
    using assms
    by (simp add: returned_def validate_field_obj [OF ob] current_session_after_fetch
             split: sum.splits)
  have stw: "current_session (snd (store_field L f v w)) = current_session w
             \<or> current_session (snd (store_field L f v w))
                 = (current_session w)\<lparr>onboarding_state := JObj (AList.update f (JStr v) kvs)\<rparr>"
  proof (cases "says_valid (validate_field L f v w)")
    case True
    then show ?thesis
      using store_accepted [OF ob] ob unfolding says_valid_iff by auto
  next
    case False
    then show ?thesis
      by (simp add: store_rejected_world current_session_after_fetch)
  qed
  have "returned (store_field L f v w)"
    by (simp add: returned_def store_field_obj [OF ob] split: sum.splits)
  moreover have "ordinary (current_session (snd (store_field L f v w)))"
    using stw ob lg by (auto simp: ordinary_def)
  ultimately show "returned (store_field L f v w) \<and> ordinary (current_session (snd (store_field L f v w)))"
    by simp
  show "returned (log_message now speaker text w)
         \<and> ordinary (current_session (snd (log_message now speaker text w)))"
    using ob lg
    by (auto simp: log_message_def returned_def ordinary_def current_session_def
          get_session_data_def Let_def split: option.splits)
  show "returned (is_onboarding_complete w) \<and> ordinary (current_session (snd (is_onboarding_complete w)))"
    using assms
    by (simp add: query_keeps_current [OF is_onboarding_complete_world])
       (simp add: returned_def is_onboarding_complete_def get_onboarding_state_eq ob Let_def)
  show "returned (get_summary L w) \<and> ordinary (current_session (snd (get_summary L w)))"
    using assms
    by (simp add: query_keeps_current [OF get_summary_world])
       (simp add: returned_def get_summary_def get_onboarding_state_eq ob Let_def)
  show "returned (get_current_state L w) \<and> ordinary (current_session (snd (get_current_state L w)))"
    using assms
    by (simp add: query_keeps_current [OF get_current_state_world])
       (simp add: returned_def get_current_state_def get_onboarding_state_eq ob Let_def)
qed

end
